theory Spec2Isabelle
  imports Complex_Main "HOL-Library.Log_Nat"
begin

section \<open>The Loki data source: data model\<close>

text \<open>
  The development embeds the class \<open>LokiDatasource\<close>: its constructor, the time
  resolver \<open>getTime\<close>, the target builder \<open>prepareQueryTarget\<close>, the batch
  executor \<open>query\<close>, its streaming sibling \<open>requestStream\<close> and the connectivity
  check \<open>testDatasource\<close>.

  A JavaScript number is a double: a rational number that a double can hold, an
  infinity, or \<open>NaN\<close>. The two zeros are not told apart (they print alike). A moment is
  modelled by the number its \<open>valueOf()\<close> returns, the milliseconds since the epoch;
  the invalid moment is \<open>NaN\<close>. The numbers of the settings (\<open>maxLines\<close>,
  \<open>intervalMs\<close>) are integers. A thrown exception or a rejected promise is the \<open>Inl\<close>
  branch of a sum.
\<close>

datatype number = Finite rat | PosInfinity | NegInfinity | NaN

type_synonym moment = number

text \<open>The argument of \<open>getTime\<close>: a string (\<open>_.isString\<close>) or an object with \<open>valueOf\<close>.\<close>

datatype date = DateString string | Moment moment

text \<open>
  What a rejected backend promise carries, as \<open>testDatasource\<close> reads it. A missing
  \<open>statusText\<close> is the empty string and a missing \<open>status\<close> is 0: both are falsy, as
  \<open>undefined\<close> is. \<open>err.data\<close> is absent, a string, or an object with or without a
  \<open>message\<close>.
\<close>

datatype err_data = NoData | DataText string | DataObject "string option"

record request_error =
  err_statusText :: string
  err_status :: nat
  err_data :: err_data

text \<open>
  \<open>TypeError\<close>: a property of \<open>undefined\<close> or \<open>null\<close> was read. \<open>Rejected\<close>: the
  transport rejected with the given value (\<open>None\<close> when it is \<open>undefined\<close>).
\<close>

datatype error = TypeError | Rejected "request_error option"

record LokiQuery =
  expr :: string
  hide :: bool
  format :: "string option"

record TimeRange =
  from' :: date
  to' :: date

record DataQueryOptions =
  targets :: "LokiQuery list"
  range' :: TimeRange
  intervalMs :: int

text \<open>The object \<open>parseQuery\<close> returns: the selector and the regular expression filter.\<close>

record ParsedQuery =
  parsed_query :: string
  parsed_regexp :: string

text \<open>
  \<open>DEFAULT_QUERY_PARAMS\<close> has the first four fields; the target that
  \<open>prepareQueryTarget\<close> returns adds \<open>start\<close> and \<open>end\<close>. The field \<open>query'\<close> is the
  source's \<open>query\<close> (the method \<open>query\<close> keeps the plain name).
\<close>

record QueryParams =
  direction :: string
  limit :: int
  regexp :: string
  query' :: string

record QueryTarget = QueryParams +
  start :: number
  end' :: number

text \<open>
  Modelled from the spec: the type \<open>LogsStream\<close> is imported from \<open>app/core/logs_model\<close>
  and is not among the sources; the spec gives a stream its labels, its ordered entries
  (a nanosecond timestamp and a line) and the filter tag \<open>search\<close>, absent until set.
\<close>

record LogsStreamEntry =
  timestampNs :: int
  line :: string

record LogsStream =
  labels :: string
  entries :: "LogsStreamEntry list"
  search :: "string option"

text \<open>
  A backend response: \<open>res.data\<close> may be missing, and so may \<open>res.data.streams\<close> (the
  query endpoint) and \<open>res.data.values\<close> (the label endpoint). The response itself may be
  \<open>undefined\<close>, which is \<open>None\<close> at the places that receive one.
\<close>

record ResponseData =
  streams :: "LogsStream list option"
  values' :: "string list option"

record Response =
  data :: "ResponseData option"

record JsonData =
  maxLines :: "string option"

record InstanceSettings =
  url :: string
  jsonData :: "JsonData option"

record LokiDatasource =
  instanceSettings :: InstanceSettings
  maxLines :: int

section \<open>The constructor\<close>

definition DEFAULT_MAX_LINES :: int where
  "DEFAULT_MAX_LINES = 1000"

definition DEFAULT_QUERY_PARAMS :: QueryParams where
  "DEFAULT_QUERY_PARAMS =
     \<lparr>direction = ''BACKWARD'', limit = DEFAULT_MAX_LINES, regexp = '''', query' = ''''\<rparr>"

text \<open>
  The built-in \<open>parseInt(s, 10)\<close>: leading white space is skipped, one sign is read, then
  the longest run of decimal digits; what follows is ignored. No digit gives \<open>NaN\<close>, here
  \<open>None\<close>. An absent argument is converted to the string \<open>undefined\<close>, which has no digit.
  The setting is a text (a number would be read through its decimal text); white space
  is the ASCII white space.
\<close>

definition isWhiteSpace :: "char \<Rightarrow> bool" where
  "isWhiteSpace c = (of_char c \<in> {9, 10, 11, 12, 13, 32 :: nat})"

definition isDigit :: "char \<Rightarrow> bool" where
  "isDigit c = (48 \<le> (of_char c :: nat) \<and> (of_char c :: nat) \<le> 57)"

definition digitsValue :: "string \<Rightarrow> int" where
  "digitsValue ds = foldl (\<lambda>a c. 10 * a + (int (of_char c) - 48)) 0 ds"

definition parseInt :: "string option \<Rightarrow> int option" where
  "parseInt input =
     (case input of
        None \<Rightarrow> None
      | Some s \<Rightarrow>
          (let s1 = dropWhile isWhiteSpace s;
               sign = (case s1 of c # _ \<Rightarrow> (if c = CHR ''-'' then - 1 else 1) | [] \<Rightarrow> (1 :: int));
               s2 = (case s1 of c # cs \<Rightarrow> (if c = CHR ''-'' \<or> c = CHR ''+'' then cs else s1)
                              | [] \<Rightarrow> s1);
               ds = takeWhile isDigit s2
           in if ds = [] then None else Some (sign * digitsValue ds)))"

text \<open>
  \<open>x || DEFAULT_MAX_LINES\<close> for a number \<open>x\<close>: \<open>NaN\<close> and 0 are falsy.
\<close>

definition orDefault :: "int option \<Rightarrow> int \<Rightarrow> int" where
  "orDefault x d = (case x of None \<Rightarrow> d | Some n \<Rightarrow> (if n = 0 then d else n))"

definition constructor :: "InstanceSettings \<Rightarrow> LokiDatasource" where
  "constructor settings =
     (let settingsData = (case jsonData settings of None \<Rightarrow> \<lparr>JsonData.maxLines = None\<rparr>
                                                  | Some d \<Rightarrow> d)
      in \<lparr>instanceSettings = settings,
          maxLines = orDefault (parseInt (JsonData.maxLines settingsData)) DEFAULT_MAX_LINES\<rparr>)"

section \<open>Double-precision arithmetic\<close>

text \<open>
  The product \<open>date.valueOf() * 1e6\<close> is a product of doubles: the exact product,
  rounded to the nearest double, ties to the even significand; a rounded value of
  magnitude \<open>2 ^ 1024\<close> or more (its exponent is 1024 or more) is an infinity.
  \<open>ilog2 a\<close> is the exponent \<open>e\<close> with \<open>2 ^ e \<le> a < 2 ^ (e + 1)\<close>, for a positive
  \<open>a\<close>; the doubles around \<open>x\<close> are the multiples of \<open>2 ^ quantumExp x\<close>: 53
  significant bits, and the spacing \<open>2 ^ -1074\<close> of the subnormal numbers at the least.
\<close>

definition ilog2 :: "rat \<Rightarrow> int" where
  "ilog2 a =
     (case quotient_of a of
        (p, q) \<Rightarrow> (let d = bitlen p - bitlen q in if 2 powi d \<le> a then d else d - 1))"

definition roundHalfEven :: "rat \<Rightarrow> int" where
  "roundHalfEven y =
     (let f = \<lfloor>y\<rfloor>; d = y - of_int f
      in if d < 1 / 2 then f else if 1 / 2 < d then f + 1 else if even f then f else f + 1)"

definition quantumExp :: "rat \<Rightarrow> int" where
  "quantumExp x = max (ilog2 \<bar>x\<bar> - 52) (- 1074)"

definition roundDouble :: "rat \<Rightarrow> number" where
  "roundDouble x =
     (if x = 0 then Finite 0
      else
        (let e = quantumExp x;
             r = of_int (roundHalfEven (x / 2 powi e)) * 2 powi e
         in if 1024 \<le> ilog2 \<bar>r\<bar> then (if 0 < r then PosInfinity else NegInfinity)
            else Finite r))"

text \<open>\<open>v * 1e6\<close>, and \<open>Math.ceil\<close>, which leaves \<open>NaN\<close> and the infinities as they are.\<close>

definition times1e6 :: "number \<Rightarrow> number" where
  "times1e6 v =
     (case v of
        Finite x \<Rightarrow> roundDouble (x * 1000000)
      | PosInfinity \<Rightarrow> PosInfinity
      | NegInfinity \<Rightarrow> NegInfinity
      | NaN \<Rightarrow> NaN)"

definition Math_ceil :: "number \<Rightarrow> number" where
  "Math_ceil v = (case v of Finite y \<Rightarrow> Finite (of_int \<lceil>y\<rceil>) | _ \<Rightarrow> v)"

section \<open>The time resolver\<close>

text \<open>
  The collaborators the class receives or imports, none of them among the sources:
  \<open>templateSrv.replace\<close>, \<open>parseQuery\<close>, \<open>dateMath.parse\<close> (which returns \<open>undefined\<close>,
  here \<open>None\<close>, for an expression it cannot read), \<open>mergeStreamsToLogs\<close> and
  \<open>makeSeriesForLogs\<close>. They are parameters of the model.
\<close>

record ('row, 'series) LogsModel =
  rows :: "'row list"
  series :: "'series list"

record ('row, 'series) collaborators =
  templateSrv_replace :: "string \<Rightarrow> string"
  parseQuery :: "string \<Rightarrow> ParsedQuery"
  dateMath_parse :: "string \<Rightarrow> bool \<Rightarrow> moment option"
  mergeStreamsToLogs :: "LogsStream list \<Rightarrow> int \<Rightarrow> ('row, 'series) LogsModel"
  makeSeriesForLogs :: "'row list \<Rightarrow> int \<Rightarrow> 'series list"

text \<open>
  \<open>getTime\<close>: a string goes through \<open>dateMath.parse\<close> with the same flag; then
  \<open>Math.ceil(date.valueOf() * 1e6)\<close>, in doubles. Reading \<open>valueOf\<close> of \<open>undefined\<close>
  throws.
\<close>

definition getTime ::
  "(string \<Rightarrow> bool \<Rightarrow> moment option) \<Rightarrow> date \<Rightarrow> bool \<Rightarrow> error + number" where
  "getTime dmParse date roundUp =
     (case (case date of DateString s \<Rightarrow> dmParse s roundUp | Moment m \<Rightarrow> Some m) of
        None \<Rightarrow> Inl TypeError
      | Some m \<Rightarrow> Inr (Math_ceil (times1e6 m)))"

section \<open>The target builder\<close>

text \<open>
  \<open>prepareQueryTarget\<close>. The clock reading \<open>moment()\<close> is a whole number of
  milliseconds, the parameter \<open>now\<close>; \<open>now.clone().subtract(1, 'seconds')\<close> is the
  moment 1000 milliseconds earlier. The object spread
  starts from \<open>DEFAULT_QUERY_PARAMS\<close>, takes \<open>query\<close> and \<open>regexp\<close> from the parsed
  expression, then \<open>start\<close>, \<open>end\<close> and \<open>limit\<close>. \<open>options.targets[0]\<close> of an empty
  list is \<open>undefined\<close>, and reading its \<open>format\<close> throws.
\<close>

definition liveStreamOf :: "DataQueryOptions \<Rightarrow> error + bool" where
  "liveStreamOf options =
     (case targets options of
        [] \<Rightarrow> Inl TypeError
      | t0 # _ \<Rightarrow> Inr (format t0 \<noteq> Some ''time_series''))"

definition prepareQueryTarget ::
  "LokiDatasource \<Rightarrow> ('row, 'series) collaborators \<Rightarrow> int \<Rightarrow> LokiQuery \<Rightarrow> DataQueryOptions
     \<Rightarrow> error + QueryTarget" where
  "prepareQueryTarget ds co now target options =
     (case liveStreamOf options of
        Inl e \<Rightarrow> Inl e
      | Inr liveStream \<Rightarrow>
          (let interpolated = templateSrv_replace co (expr target);
               liveStreamStart = Moment (Finite (of_int (now - 1000)));
               liveStreamEnd = Moment (Finite (of_int now))
           in case (if liveStream then getTime (dateMath_parse co) liveStreamStart False
                    else getTime (dateMath_parse co) (from' (range' options)) False) of
                Inl e \<Rightarrow> Inl e
              | Inr start_v \<Rightarrow>
                  (case (if liveStream then getTime (dateMath_parse co) liveStreamEnd True
                         else getTime (dateMath_parse co) (to' (range' options)) True) of
                     Inl e \<Rightarrow> Inl e
                   | Inr end_v \<Rightarrow>
                       (let parsed = parseQuery co interpolated;
                            params = DEFAULT_QUERY_PARAMS
                                       \<lparr>query' := parsed_query parsed, regexp := parsed_regexp parsed\<rparr>
                        in Inr (QueryParams.extend params \<lparr>start = start_v, end' = end_v\<rparr>
                                  \<lparr>limit := maxLines ds\<rparr>)))))"

section \<open>The transport\<close>

text \<open>
  \<open>_request\<close> and \<open>_stream\<close> hand a request to \<open>backendSrv\<close>. The model keeps the base
  URL, the API path and the data object of the request apart; their serialisation into
  one URL string stays with the transport. The transport is a parameter: it answers a
  request knowing the requests issued before, and every call is appended to the log of
  issued requests, which is the state the executors pass along.
\<close>

record Request =
  baseUrl :: string
  apiUrl :: string
  params :: "QueryTarget option"

type_synonym 'a promise = "request_error option + 'a"

type_synonym backendSrv = "Request list \<Rightarrow> Request \<Rightarrow> Response option promise"

text \<open>The object \<open>req\<close> that both functions build.\<close>

definition buildRequest :: "LokiDatasource \<Rightarrow> string \<Rightarrow> QueryTarget option \<Rightarrow> Request" where
  "buildRequest ds api d = \<lparr>baseUrl = url (instanceSettings ds), apiUrl = api, params = d\<rparr>"

definition loki_request ::
  "backendSrv \<Rightarrow> LokiDatasource \<Rightarrow> string \<Rightarrow> QueryTarget option \<Rightarrow> Request list
     \<Rightarrow> Response option promise \<times> Request list" where
  "loki_request srv ds api d issued =
     (let req = buildRequest ds api d in (srv issued req, issued @ [req]))"

text \<open>
  An observable is modelled by what it delivers: the values in order, and how it ends
  (it completes, it fails, or it stays open).
\<close>

datatype ending = Completes | Fails error | Pending

record 'a observable =
  emitted :: "'a list"
  ending :: ending

type_synonym streamSrv = "Request list \<Rightarrow> Request \<Rightarrow> Response option observable"

definition loki_stream ::
  "streamSrv \<Rightarrow> LokiDatasource \<Rightarrow> string \<Rightarrow> QueryTarget option \<Rightarrow> Request list
     \<Rightarrow> Response option observable \<times> Request list" where
  "loki_stream srv ds api d issued =
     (let req = buildRequest ds api d in (srv issued req, issued @ [req]))"

section \<open>The query executor\<close>

text \<open>The callback \<open>target => target.expr && !target.hide\<close>; the empty string is falsy.\<close>

definition isActive :: "LokiQuery \<Rightarrow> bool" where
  "isActive target = (expr target \<noteq> [] \<and> \<not> hide target)"

text \<open>
  \<open>.map(target => this.prepareQueryTarget(target, options))\<close>: the first exception ends
  the map. Each call reads the clock; \<open>clock i\<close> is the reading of the call for the
  \<open>i\<close>-th surviving target.
\<close>

fun prepareTargets ::
  "LokiDatasource \<Rightarrow> ('row, 'series) collaborators \<Rightarrow> (nat \<Rightarrow> int) \<Rightarrow> nat \<Rightarrow> LokiQuery list
     \<Rightarrow> DataQueryOptions \<Rightarrow> error + QueryTarget list" where
  "prepareTargets ds co clock i [] options = Inr []"
| "prepareTargets ds co clock i (t # ts) options =
     (case prepareQueryTarget ds co (clock i) t options of
        Inl e \<Rightarrow> Inl e
      | Inr q \<Rightarrow>
          (case prepareTargets ds co clock (Suc i) ts options of
             Inl e \<Rightarrow> Inl e
           | Inr qs \<Rightarrow> Inr (q # qs)))"

text \<open>\<open>queryTargets.map(target => this._request('/api/prom/query', target))\<close>.\<close>

fun requestAll ::
  "backendSrv \<Rightarrow> LokiDatasource \<Rightarrow> QueryTarget list \<Rightarrow> Request list
     \<Rightarrow> Response option promise list \<times> Request list" where
  "requestAll srv ds [] issued = ([], issued)"
| "requestAll srv ds (q # qs) issued =
     (case loki_request srv ds ''/api/prom/query'' (Some q) issued of
        (r, issued1) \<Rightarrow> (case requestAll srv ds qs issued1 of (rs, issued2) \<Rightarrow> (r # rs, issued2)))"

text \<open>
  \<open>Promise.all\<close>: all results in order, or one rejection. Which rejection wins depends
  on the order of arrival; the model takes the first in list order.
\<close>

fun promiseAll :: "'a promise list \<Rightarrow> 'a list promise" where
  "promiseAll [] = Inr []"
| "promiseAll (Inl v # ps) = Inl v"
| "promiseAll (Inr x # ps) = (case promiseAll ps of Inl v \<Rightarrow> Inl v | Inr xs \<Rightarrow> Inr (x # xs))"

text \<open>
  The inner loop \<open>for (const stream of result.data.streams || [])\<close> with the body
  \<open>stream.search = query.regexp; allStreams.push(stream)\<close>. The responses are fresh
  objects, so the assignment is a functional update. \<open>query\<close> is \<open>queryTargets[i]\<close>,
  \<open>undefined\<close> beyond the end of the array; the body then throws, if it runs at all.
\<close>

definition nthOpt :: "'a list \<Rightarrow> nat \<Rightarrow> 'a option" where
  "nthOpt xs i = (if i < length xs then Some (xs ! i) else None)"

definition tagStream :: "string \<Rightarrow> LogsStream \<Rightarrow> LogsStream" where
  "tagStream r stream = stream\<lparr>search := Some r\<rparr>"

definition tagStreams :: "QueryTarget option \<Rightarrow> LogsStream list \<Rightarrow> error + LogsStream list" where
  "tagStreams q ss =
     (if ss = [] then Inr []
      else case q of None \<Rightarrow> Inl TypeError | Some t \<Rightarrow> Inr (map (tagStream (regexp t)) ss))"

definition streamsOrEmpty :: "ResponseData \<Rightarrow> LogsStream list" where
  "streamsOrEmpty d = (case streams d of None \<Rightarrow> [] | Some ss \<Rightarrow> ss)"

text \<open>The outer loop \<open>for (let i = 0; i < results.length; i++)\<close>.\<close>

function collectStreams ::
  "nat \<Rightarrow> Response option list \<Rightarrow> QueryTarget list \<Rightarrow> LogsStream list \<Rightarrow> error + LogsStream list" where
  "collectStreams i results queryTargets allStreams =
     (if i < length results then
        (case results ! i of
           None \<Rightarrow> Inl TypeError
         | Some result \<Rightarrow>
             (case data result of
                None \<Rightarrow> collectStreams (Suc i) results queryTargets allStreams
              | Some d \<Rightarrow>
                  (case tagStreams (nthOpt queryTargets i) (streamsOrEmpty d) of
                     Inl e \<Rightarrow> Inl e
                   | Inr tagged \<Rightarrow>
                       collectStreams (Suc i) results queryTargets (allStreams @ tagged))))
      else Inr allStreams)"
  by pat_completeness auto
termination
  by (relation "measure (\<lambda>(i, results, queryTargets, allStreams). length results - i)") auto

declare collectStreams.simps [simp del]

text \<open>
  What \<open>data\<close> holds: series in time series mode, tagged streams otherwise. A JavaScript
  array carries no element type, so the empty array is the same value in both modes.
\<close>

datatype 'series item = SeriesItem 'series | StreamItem LogsStream

datatype 'series result = Result (result_data: "'series item list")

text \<open>
  The two shapes: the series derived from the merged logs (\<open>{ data: logs.series }\<close>),
  and the tagged streams as they are (\<open>{ data: allStreams }\<close>).
\<close>

definition seriesShape ::
  "LokiDatasource \<Rightarrow> ('row, 'series) collaborators \<Rightarrow> DataQueryOptions \<Rightarrow> LogsStream list
     \<Rightarrow> 'series result" where
  "seriesShape ds co options allStreams =
     (let logs = mergeStreamsToLogs co allStreams (maxLines ds);
          logs' = logs\<lparr>series := makeSeriesForLogs co (rows logs) (intervalMs options)\<rparr>
      in Result (map SeriesItem (series logs')))"

definition streamShape :: "LogsStream list \<Rightarrow> 'series result" where
  "streamShape allStreams = Result (map StreamItem allStreams)"

text \<open>
  The mode check \<open>options.targets[0].format === 'time_series'\<close> that chooses between
  them, as both \<open>query\<close> and \<open>requestStream\<close> have it.
\<close>

definition shapeResult ::
  "LokiDatasource \<Rightarrow> ('row, 'series) collaborators \<Rightarrow> DataQueryOptions \<Rightarrow> LogsStream list
     \<Rightarrow> error + 'series result" where
  "shapeResult ds co options allStreams =
     (case targets options of
        [] \<Rightarrow> Inl TypeError
      | t0 # _ \<Rightarrow>
          (if format t0 = Some ''time_series'' then Inr (seriesShape ds co options allStreams)
           else Inr (streamShape allStreams)))"

text \<open>
  \<open>query\<close>, an async function: an exception inside it is a rejection. It returns the
  outcome and the log of issued requests.
\<close>

definition query ::
  "LokiDatasource \<Rightarrow> ('row, 'series) collaborators \<Rightarrow> (nat \<Rightarrow> int) \<Rightarrow> backendSrv
     \<Rightarrow> DataQueryOptions \<Rightarrow> Request list \<Rightarrow> (error + 'series result) \<times> Request list" where
  "query ds co clock srv options issued =
     (case prepareTargets ds co clock 0 (filter isActive (targets options)) options of
        Inl e \<Rightarrow> (Inl e, issued)
      | Inr queryTargets \<Rightarrow>
          (if length queryTargets = 0 then (Inr (Result []), issued)
           else
             (case requestAll srv ds queryTargets issued of
                (queries, issued') \<Rightarrow>
                  (case promiseAll queries of
                     Inl v \<Rightarrow> (Inl (Rejected v), issued')
                   | Inr results \<Rightarrow>
                       (case collectStreams 0 results queryTargets [] of
                          Inl e \<Rightarrow> (Inl e, issued')
                        | Inr allStreams \<Rightarrow> (shapeResult ds co options allStreams, issued'))))))"

section \<open>The streaming executor\<close>

text \<open>The callback \<open>target => !target.expr || target.hide\<close>.\<close>

definition isSuppressed :: "LokiQuery \<Rightarrow> bool" where
  "isSuppressed target = (expr target = [] \<or> hide target)"

text \<open>
  What \<open>requestStream\<close> delivers: a result object, or the constant \<open>EMPTY\<close> itself
  (an observable, delivered as a value).
\<close>

datatype 'series emission = EMPTY | Value "'series result"

text \<open>
  \<open>.map(target => this._stream('/api/prom/query', target, ...))\<close>: the transport is
  called once per prepared target, in order, when \<open>requestStream\<close> is called. The
  third argument, the options with \<open>liveStream: false\<close>, is spread into the request
  object for the transport and plays no part here.
\<close>

fun streamAll ::
  "streamSrv \<Rightarrow> LokiDatasource \<Rightarrow> QueryTarget list \<Rightarrow> Request list
     \<Rightarrow> Response option observable list \<times> Request list" where
  "streamAll srv ds [] issued = ([], issued)"
| "streamAll srv ds (q # qs) issued =
     (case loki_stream srv ds ''/api/prom/query'' (Some q) issued of
        (ob, issued1) \<Rightarrow>
          (case streamAll srv ds qs issued1 of (obs, issued2) \<Rightarrow> (ob # obs, issued2)))"

text \<open>
  The callback of the inner \<open>map\<close>:
  \<open>result && result.data && result.data.streams\<close>, then every stream copied with
  \<open>search: target.regexp\<close>; the empty list otherwise.
\<close>

definition streamsOfResult :: "QueryTarget \<Rightarrow> Response option \<Rightarrow> LogsStream list" where
  "streamsOfResult target result =
     (case result of
        None \<Rightarrow> []
      | Some r \<Rightarrow>
          (case data r of
             None \<Rightarrow> []
           | Some d \<Rightarrow>
               (case streams d of
                  None \<Rightarrow> []
                | Some ss \<Rightarrow> map (tagStream (regexp target)) ss)))"


definition mapObservable :: "('a \<Rightarrow> 'b) \<Rightarrow> 'a observable \<Rightarrow> 'b observable" where
  "mapObservable f ob = \<lparr>emitted = map f (emitted ob), ending = ending ob\<rparr>"

text \<open>
  \<open>forkJoin\<close> of an array of observables: when all have completed, each after at least
  one value, it delivers the array of their last values and completes. Of no observable
  it completes at once. It fails when one fails, and completes empty when one completes
  without a value (the model looks for a failure first, in list order; the library
  takes what happens first). Otherwise it stays open.
\<close>

definition isFailure :: "ending \<Rightarrow> bool" where
  "isFailure e = (case e of Fails _ \<Rightarrow> True | _ \<Rightarrow> False)"

definition forkJoin :: "'a observable list \<Rightarrow> 'a list observable" where
  "forkJoin obs =
     (if obs = [] then \<lparr>emitted = [], ending = Completes\<rparr>
      else if list_all (\<lambda>ob. ending ob = Completes \<and> emitted ob \<noteq> []) obs
        then \<lparr>emitted = [map (\<lambda>ob. last (emitted ob)) obs], ending = Completes\<rparr>
      else
        (case find (\<lambda>ob. isFailure (ending ob)) obs of
           Some ob \<Rightarrow> \<lparr>emitted = [], ending = ending ob\<rparr>
         | None \<Rightarrow>
             (if list_ex (\<lambda>ob. ending ob = Completes \<and> emitted ob = []) obs
              then \<lparr>emitted = [], ending = Completes\<rparr>
              else \<lparr>emitted = [], ending = Pending\<rparr>)))"

text \<open>
  The operator \<open>map\<close> with a callback that may throw: the values before the exception
  are delivered, then the observable fails.
\<close>

fun mapUntilError :: "('a \<Rightarrow> error + 'b) \<Rightarrow> 'a list \<Rightarrow> 'b list \<times> error option" where
  "mapUntilError f [] = ([], None)"
| "mapUntilError f (x # xs) =
     (case f x of
        Inl e \<Rightarrow> ([], Some e)
      | Inr y \<Rightarrow> (case mapUntilError f xs of (ys, r) \<Rightarrow> (y # ys, r)))"

text \<open>
  The pipe on \<open>forkJoin(streams$)\<close>: \<open>combineLatest(streams => streams)\<close> passes the one
  array on, \<open>mergeMap(value => value)\<close> delivers its elements one by one, and the last
  \<open>map\<close> shapes each of them.
\<close>

definition resultPipe ::
  "LokiDatasource \<Rightarrow> ('row, 'series) collaborators \<Rightarrow> DataQueryOptions
     \<Rightarrow> LogsStream list observable list \<Rightarrow> 'series result observable" where
  "resultPipe ds co options streamsS =
     (let joined = forkJoin streamsS;
          flat = concat (emitted joined)
      in case mapUntilError (shapeResult ds co options) flat of
           (vs, None) \<Rightarrow> \<lparr>emitted = vs, ending = ending joined\<rparr>
         | (vs, Some e) \<Rightarrow> \<lparr>emitted = vs, ending = Fails e\<rparr>)"

text \<open>
  \<open>merge(emptyStream$, result)\<close>: the first argument is an array, and \<open>merge\<close> reads an
  array as a source of its elements; they are delivered on subscription, before
  anything of \<open>result\<close>.
\<close>

definition mergeEmpty ::
  "'series emission list \<Rightarrow> 'series result observable \<Rightarrow> 'series emission observable" where
  "mergeEmpty emptyStreamS res =
     \<lparr>emitted = emptyStreamS @ map Value (emitted res), ending = ending res\<rparr>"

definition requestStream ::
  "LokiDatasource \<Rightarrow> ('row, 'series) collaborators \<Rightarrow> (nat \<Rightarrow> int) \<Rightarrow> streamSrv
     \<Rightarrow> DataQueryOptions \<Rightarrow> Request list
     \<Rightarrow> (error + 'series emission observable) \<times> Request list" where
  "requestStream ds co clock srv options issued =
     (let emptyStreamS = map (\<lambda>_. EMPTY) (filter isSuppressed (targets options))
      in case prepareTargets ds co clock 0 (filter isActive (targets options)) options of
           Inl e \<Rightarrow> (Inl e, issued)
         | Inr prepared \<Rightarrow>
             (case streamAll srv ds prepared issued of
                (obs, issued') \<Rightarrow>
                  (let streamsS = map (\<lambda>(target, ob). mapObservable (streamsOfResult target) ob)
                                    (zip prepared obs)
                   in (Inr (mergeEmpty emptyStreamS (resultPipe ds co options streamsS)),
                       issued'))))"

text \<open>
  The ticks of \<open>webSocketStream\<close>: every tick of \<open>interval(1000)\<close> calls
  \<open>requestStream(options)\<close>, which issues its requests at once. An exception in the
  callback ends the subscription, so no later tick runs. The function gives whether the
  subscription is still running after \<open>n\<close> ticks, and the log of issued requests;
  \<open>clock k\<close> is the clock of tick \<open>k\<close>.
\<close>

fun tickRequests ::
  "LokiDatasource \<Rightarrow> ('row, 'series) collaborators \<Rightarrow> (nat \<Rightarrow> nat \<Rightarrow> int) \<Rightarrow> streamSrv
     \<Rightarrow> DataQueryOptions \<Rightarrow> nat \<Rightarrow> Request list \<Rightarrow> bool \<times> Request list" where
  "tickRequests ds co clock srv options 0 issued = (True, issued)"
| "tickRequests ds co clock srv options (Suc n) issued =
     (case tickRequests ds co clock srv options n issued of
        (False, issued1) \<Rightarrow> (False, issued1)
      | (True, issued1) \<Rightarrow>
          (case requestStream ds co (clock n) srv options issued1 of
             (Inl e, issued2) \<Rightarrow> (False, issued2)
           | (Inr ob, issued2) \<Rightarrow> (True, issued2)))"

text \<open>
  \<open>stream\<close> hands the options to one of the two: to \<open>webSocketStream\<close>, the live
  poller, when the first target is not in time series mode, and to \<open>requestStream\<close>
  otherwise.
\<close>

datatype executor = WebSocketStream | RequestStream

definition stream :: "DataQueryOptions \<Rightarrow> error + executor" where
  "stream options =
     (case liveStreamOf options of
        Inl e \<Rightarrow> Inl e
      | Inr liveStream \<Rightarrow> Inr (if liveStream then WebSocketStream else RequestStream))"

section \<open>The connectivity check\<close>

record TestResult =
  status :: string
  message :: string

text \<open>A number in a template string: its decimal digits.\<close>

fun showNat :: "nat \<Rightarrow> string" where
  "showNat n =
     (if n < 10 then [char_of (48 + n)]
      else showNat (n div 10) @ [char_of (48 + n mod 10)])"

declare showNat.simps [simp del]

text \<open>\<open>res && res.data && res.data.values && res.data.values.length > 0\<close>.\<close>

definition labelsFound :: "Response option \<Rightarrow> bool" where
  "labelsFound res =
     (case res of
        None \<Rightarrow> False
      | Some r \<Rightarrow>
          (case data r of
             None \<Rightarrow> False
           | Some d \<Rightarrow> (case values' d of None \<Rightarrow> False | Some vs \<Rightarrow> length vs > 0)))"

text \<open>The handler of \<open>.catch\<close>, for a rejection value that is an object.\<close>

definition errorMessage :: "request_error \<Rightarrow> string" where
  "errorMessage err =
     (let m0 = ''Loki: '';
          m1 = (if err_statusText err \<noteq> [] then m0 @ err_statusText err
                else m0 @ ''Cannot connect to Loki'');
          m2 = (if err_status err \<noteq> 0 then m1 @ ''. '' @ showNat (err_status err) else m1)
      in case err_data err of
           NoData \<Rightarrow> m2
         | DataText t \<Rightarrow> (if t \<noteq> [] then m2 @ ''. '' @ t else m2)
         | DataObject None \<Rightarrow> m2 @ ''. [object Object]''
         | DataObject (Some msg) \<Rightarrow>
             (if msg \<noteq> [] then m2 @ ''. '' @ msg else m2 @ ''. [object Object]''))"

definition testDatasource ::
  "backendSrv \<Rightarrow> LokiDatasource \<Rightarrow> Request list \<Rightarrow> (error + TestResult) \<times> Request list" where
  "testDatasource srv ds issued =
     (case loki_request srv ds ''/api/prom/label'' None issued of
        (Inr res, issued') \<Rightarrow>
          (if labelsFound res
           then (Inr \<lparr>status = ''success'', message = ''Data source connected and labels found.''\<rparr>,
                 issued')
           else (Inr \<lparr>status = ''error'',
                      message = ''Data source connected, but no labels received. Verify that Loki and Promtail is configured properly.''\<rparr>,
                 issued'))
      | (Inl None, issued') \<Rightarrow> (Inl TypeError, issued')
      | (Inl (Some err), issued') \<Rightarrow>
          (Inr \<lparr>status = ''error'', message = errorMessage err\<rparr>, issued'))"

section \<open>Sample data\<close>

text \<open>
  Concrete collaborators, settings and targets, on which the properties below are
  evaluated. The sample parser splits an expression at its first blank into selector and
  filter; the sample date parser knows the expression \<open>now\<close> only.
\<close>

definition sample_collaborators :: "(LogsStreamEntry, nat) collaborators" where
  "sample_collaborators =
     \<lparr>templateSrv_replace = (\<lambda>s. s),
      parseQuery = (\<lambda>s. \<lparr>parsed_query = takeWhile (\<lambda>c. c \<noteq> CHR '' '') s,
                         parsed_regexp = drop 1 (dropWhile (\<lambda>c. c \<noteq> CHR '' '') s)\<rparr>),
      dateMath_parse = (\<lambda>s roundUp. if s = ''now''
                                     then Some (Finite (if roundUp then 6000 else 5000))
                                     else None),
      mergeStreamsToLogs = (\<lambda>ss n. \<lparr>rows = take (nat n) (concat (map entries ss)), series = []\<rparr>),
      makeSeriesForLogs = (\<lambda>rs i. [length rs])\<rparr>"

definition sample_settings :: InstanceSettings where
  "sample_settings = \<lparr>url = ''http://loki'', jsonData = Some \<lparr>JsonData.maxLines = Some ''500''\<rparr>\<rparr>"

definition negative_settings :: InstanceSettings where
  "negative_settings = \<lparr>url = ''http://loki'', jsonData = Some \<lparr>JsonData.maxLines = Some ''-5''\<rparr>\<rparr>"

definition sample_datasource :: LokiDatasource where
  "sample_datasource = constructor sample_settings"

definition logs_target :: LokiQuery where
  "logs_target = \<lparr>expr = ''{job=a} err'', hide = False, format = Some ''logs''\<rparr>"

definition series_target :: LokiQuery where
  "series_target = \<lparr>expr = ''{job=b}'', hide = False, format = Some ''time_series''\<rparr>"

definition hidden_series_target :: LokiQuery where
  "hidden_series_target = \<lparr>expr = ''{job=c}'', hide = True, format = Some ''time_series''\<rparr>"

definition sample_range :: TimeRange where
  "sample_range = \<lparr>from' = DateString ''now'', to' = Moment (Finite 7000)\<rparr>"

definition live_options :: DataQueryOptions where
  "live_options = \<lparr>targets = [logs_target, series_target], range' = sample_range, intervalMs = 1000\<rparr>"

definition historical_options :: DataQueryOptions where
  "historical_options = \<lparr>targets = [series_target, logs_target], range' = sample_range, intervalMs = 1000\<rparr>"

definition empty_target :: LokiQuery where
  "empty_target = \<lparr>expr = [], hide = False, format = Some ''logs''\<rparr>"

definition mixed_options :: DataQueryOptions where
  "mixed_options =
     \<lparr>targets = [hidden_series_target, logs_target], range' = sample_range, intervalMs = 1000\<rparr>"

definition suppressed_options :: DataQueryOptions where
  "suppressed_options =
     \<lparr>targets = [hidden_series_target, empty_target], range' = sample_range, intervalMs = 1000\<rparr>"

definition positional_options :: DataQueryOptions where
  "positional_options =
     \<lparr>targets = [logs_target, hidden_series_target], range' = sample_range, intervalMs = 1000\<rparr>"

definition sample_clock :: "nat \<Rightarrow> int" where
  "sample_clock i = 9000 + int i"

text \<open>
  The sample backend answers a query with one stream of one entry, labelled with the
  selector it was asked for, and a label request with an empty list of labels.
\<close>

definition sample_stream :: "string \<Rightarrow> LogsStream" where
  "sample_stream l =
     \<lparr>labels = l, entries = [\<lparr>timestampNs = 100, line = ''err one''\<rparr>], search = None\<rparr>"

definition sample_response :: "Request \<Rightarrow> Response option" where
  "sample_response req =
     (case params req of
        None \<Rightarrow> Some \<lparr>data = Some \<lparr>streams = None, values' = Some []\<rparr>\<rparr>
      | Some q \<Rightarrow> Some \<lparr>data = Some \<lparr>streams = Some [sample_stream (query' q)], values' = None\<rparr>\<rparr>)"

definition sample_backend :: backendSrv where
  "sample_backend issued req = Inr (sample_response req)"

definition failing_backend :: backendSrv where
  "failing_backend issued req =
     Inl (Some \<lparr>err_statusText = ''Bad Gateway'', err_status = 502, err_data = NoData\<rparr>)"

definition sample_stream_backend :: streamSrv where
  "sample_stream_backend issued req = \<lparr>emitted = [sample_response req], ending = Completes\<rparr>"

section \<open>Properties of the constructor and of \<open>parseInt\<close>\<close>

lemma of_char_digit: "k < 10 \<Longrightarrow> (of_char (char_of (48 + k :: nat)) :: nat) = 48 + k"
  by simp

lemma isDigit_digit: "k < 10 \<Longrightarrow> isDigit (char_of (48 + k :: nat))"
  by (simp add: isDigit_def)

lemma showNat_digits: "list_all isDigit (showNat n)"
proof (induction n rule: showNat.induct)
  case (1 n)
  show ?case
  proof (cases "n < 10")
    case True
    then show ?thesis by (subst showNat.simps) (simp add: isDigit_digit)
  next
    case False
    then have "list_all isDigit (showNat (n div 10))" using 1 by simp
    moreover have "isDigit (char_of (48 + n mod 10))" by (rule isDigit_digit) simp
    ultimately show ?thesis using False by (subst showNat.simps) simp
  qed
qed

lemma showNat_nonempty: "showNat n \<noteq> []"
  by (subst showNat.simps) simp

lemma digitsValue_snoc: "digitsValue (ds @ [c]) = 10 * digitsValue ds + (int (of_char c) - 48)"
  by (simp add: digitsValue_def)

lemma digitsValue_showNat: "digitsValue (showNat n) = int n"
proof (induction n rule: showNat.induct)
  case (1 n)
  show ?case
  proof (cases "n < 10")
    case True
    then show ?thesis by (subst showNat.simps) (simp add: digitsValue_def)
  next
    case False
    then have ih: "digitsValue (showNat (n div 10)) = int (n div 10)" using 1 by simp
    have "digitsValue (showNat n) = 10 * int (n div 10) + int (n mod 10)"
      using False ih by (subst showNat.simps) (simp add: digitsValue_snoc)
    moreover have "int n = 10 * int (n div 10) + int (n mod 10)"
      by (metis mult_div_mod_eq of_nat_add of_nat_mult of_nat_numeral)
    ultimately show ?thesis by simp
  qed
qed

lemma isDigit_not_space: "isDigit c \<Longrightarrow> \<not> isWhiteSpace c"
  by (auto simp: isDigit_def isWhiteSpace_def)

lemma isDigit_not_sign: "isDigit c \<Longrightarrow> c \<noteq> CHR ''-'' \<and> c \<noteq> CHR ''+''"
  by (auto simp: isDigit_def)

lemma parseInt_digits:
  assumes "ds \<noteq> []" and "list_all isDigit ds"
  shows "parseInt (Some ds) = Some (digitsValue ds)"
proof -
  obtain c cs where ds: "ds = c # cs" using assms(1) by (cases ds) auto
  have c: "isDigit c" using assms(2) ds by simp
  have "list_all isDigit cs" using assms(2) ds by simp
  then have tw: "takeWhile isDigit cs = cs"
    by (simp only: takeWhile_eq_all_conv list_all_iff)
  show ?thesis
    using c isDigit_not_space [OF c] isDigit_not_sign [OF c]
    by (simp add: parseInt_def ds tw)
qed

lemma parseInt_minus_digits:
  assumes "ds \<noteq> []" and "list_all isDigit ds"
  shows "parseInt (Some (CHR ''-'' # ds)) = Some (- digitsValue ds)"
proof -
  have tw: "takeWhile isDigit ds = ds"
    using assms(2) by (simp only: takeWhile_eq_all_conv list_all_iff)
  have dw: "dropWhile isWhiteSpace (CHR ''-'' # ds) = CHR ''-'' # ds"
    by (simp add: isWhiteSpace_def)
  show ?thesis
    unfolding parseInt_def option.case Let_def dw list.case
    using assms(1) by (simp add: tw)
qed

lemma parseInt_showNat: "parseInt (Some (showNat n)) = Some (int n)"
  by (simp add: parseInt_digits showNat_nonempty showNat_digits digitsValue_showNat)

lemma parseInt_minus_showNat: "parseInt (Some (CHR ''-'' # showNat n)) = Some (- int n)"
  by (simp add: parseInt_minus_digits showNat_nonempty showNat_digits digitsValue_showNat)

lemma parseInt_no_digit:
  "s = [] \<or> \<not> isDigit (hd s) \<and> \<not> isWhiteSpace (hd s) \<and> hd s \<noteq> CHR ''-'' \<and> hd s \<noteq> CHR ''+''
     \<Longrightarrow> parseInt (Some s) = None"
  by (cases s) (auto simp: parseInt_def)

lemma constructor_maxLines:
  "LokiDatasource.maxLines (constructor settings) =
     (case jsonData settings of
        None \<Rightarrow> 1000
      | Some d \<Rightarrow>
          (case parseInt (JsonData.maxLines d) of
             None \<Rightarrow> 1000
           | Some n \<Rightarrow> (if n = 0 then 1000 else n)))"
  by (simp add: constructor_def orDefault_def DEFAULT_MAX_LINES_def parseInt_def Let_def
      split: option.splits)

lemma constructor_nonzero: "LokiDatasource.maxLines (constructor settings) \<noteq> 0"
  by (simp add: constructor_maxLines split: option.splits)

lemma showNat_500: "showNat 500 = ''500''"
  by code_simp
lemma showNat_5: "showNat 5 = ''5''"
  by code_simp

lemma sample_datasource_maxLines: "LokiDatasource.maxLines sample_datasource = 500"
  by (simp add: sample_datasource_def constructor_maxLines sample_settings_def parseInt_def
      isWhiteSpace_def isDigit_def digitsValue_def)

section \<open>Properties of double rounding\<close>


lemma bitlen_powi_bounds:
  assumes "0 < p"
  shows "(2::rat) powi (bitlen p - 1) \<le> of_int p" and "of_int p < (2::rat) powi (bitlen p)"
proof -
  from bitlen_bounds [OF assms] have lo: "2 ^ nat (bitlen p - 1) \<le> p" and hi: "p < 2 ^ nat (bitlen p)"
    by auto
  have b1: "1 \<le> bitlen p" using assms bitlen_eq_zero_iff [of p] bitlen_nonneg [of p] by linarith
  have "(2::rat) powi (bitlen p - 1) = 2 ^ nat (bitlen p - 1)"
    using b1 by (simp add: power_int_def)
  also have "\<dots> = of_int (2 ^ nat (bitlen p - 1))" by simp
  also have "\<dots> \<le> of_int p" using lo by (simp only: of_int_le_iff)
  finally show "(2::rat) powi (bitlen p - 1) \<le> of_int p" .
  have "(of_int p :: rat) < of_int (2 ^ nat (bitlen p))" using hi by (simp only: of_int_less_iff)
  also have "\<dots> = 2 ^ nat (bitlen p)" by simp
  also have "\<dots> = 2 powi (bitlen p)" using b1 by (simp add: power_int_def)
  finally show "of_int p < (2::rat) powi (bitlen p)" .
qed

lemma ilog2_bounds:
  assumes "0 < a"
  shows "2 powi (ilog2 a) \<le> a" and "a < 2 powi (ilog2 a + 1)"
proof -
  obtain p q where pq: "quotient_of a = (p, q)" by (cases "quotient_of a")
  have q: "0 < q" using quotient_of_denom_pos [OF pq] .
  have a: "a = of_int p / of_int q" using quotient_of_div [OF pq] .
  have p: "0 < p" using assms q a by (simp add: zero_less_divide_iff)
  let ?d = "bitlen p - bitlen q"
  note bp = bitlen_powi_bounds [OF p] and bq = bitlen_powi_bounds [OF q]
  have qpos: "(0::rat) < of_int q" using q by simp
  have up: "a < 2 powi (?d + 1)"
  proof -
    have "a * of_int q = of_int p" using a qpos by simp
    also have "\<dots> < 2 powi (bitlen p)" by (rule bp(2))
    also have "\<dots> = 2 powi (?d + 1) * 2 powi (bitlen q - 1)"
      by (simp flip: power_int_add)
    also have "\<dots> \<le> 2 powi (?d + 1) * of_int q"
      using bq(1) by (intro mult_left_mono) simp_all
    finally show ?thesis using qpos by simp
  qed
  have low: "2 powi (?d - 1) \<le> a"
  proof -
    have "(2::rat) powi (?d - 1) * of_int q \<le> 2 powi (?d - 1) * 2 powi (bitlen q)"
      using bq(2) by (intro mult_left_mono) simp_all
    also have "\<dots> = 2 powi (bitlen p - 1)"
      by (simp flip: power_int_add)
    also have "\<dots> \<le> of_int p" by (rule bp(1))
    also have "\<dots> = a * of_int q" using a qpos by simp
    finally show ?thesis using qpos by simp
  qed
  have il: "ilog2 a = (if 2 powi ?d \<le> a then ?d else ?d - 1)"
    by (simp add: ilog2_def pq Let_def)
  show "2 powi (ilog2 a) \<le> a" using low by (simp add: il)
  show "a < 2 powi (ilog2 a + 1)" using up by (auto simp: il)
qed

lemma ilog2_upper: "0 < a \<Longrightarrow> a < 2 powi k \<Longrightarrow> ilog2 a < k"
proof (rule ccontr)
  assume a: "0 < a" and lt: "a < 2 powi k" and "\<not> ilog2 a < k"
  then have "k \<le> ilog2 a" by simp
  then have "(2::rat) powi k \<le> 2 powi (ilog2 a)" by (intro power_int_increasing) simp_all
  with ilog2_bounds(1) [OF a] lt show False by simp
qed

lemma ilog2_lower: "0 < a \<Longrightarrow> 2 powi k \<le> a \<Longrightarrow> k \<le> ilog2 a"
proof (rule ccontr)
  assume a: "0 < a" and le: "2 powi k \<le> a" and "\<not> k \<le> ilog2 a"
  then have "ilog2 a + 1 \<le> k" by simp
  then have "(2::rat) powi (ilog2 a + 1) \<le> 2 powi k" by (intro power_int_increasing) simp_all
  with ilog2_bounds(2) [OF a] le show False by simp
qed

lemma roundHalfEven_of_int [simp]: "roundHalfEven (of_int z) = z"
  by (simp add: roundHalfEven_def)

lemma roundHalfEven_near: "\<bar>of_int (roundHalfEven y) - y\<bar> \<le> 1 / 2"
proof -
  define f where "f = \<lfloor>y\<rfloor>"
  define d where "d = y - of_int f"
  have d: "0 \<le> d" "d < 1" unfolding d_def f_def by linarith+
  have y: "y = of_int f + d" by (simp add: d_def)
  have r: "roundHalfEven y =
      (if d < 1 / 2 then f else if 1 / 2 < d then f + 1 else if even f then f else f + 1)"
    by (simp add: roundHalfEven_def Let_def f_def d_def)
  have "\<bar>of_int (roundHalfEven y) - y\<bar> =
      \<bar>of_int (if d < 1 / 2 then f else if 1 / 2 < d then f + 1 else if even f then f else f + 1)
         - (of_int f + d)\<bar>"
    by (simp only: r flip: y)
  also have "\<dots> \<le> 1 / 2" using d by (auto simp: abs_if)
  finally show ?thesis .
qed

lemma roundDouble_Finite:
  assumes "roundDouble x = Finite r"
  shows "r = of_int (roundHalfEven (x / 2 powi quantumExp x)) * 2 powi quantumExp x"
  using assms by (auto simp: roundDouble_def Let_def roundHalfEven_def split: if_splits)

lemma quantumExp_nonpos:
  assumes "x \<noteq> 0" and "\<bar>x\<bar> < 2 ^ 53"
  shows "quantumExp x \<le> 0"
proof -
  have "\<bar>x\<bar> < 2 powi 53" using assms(2) by (simp add: power_int_def)
  then have "ilog2 \<bar>x\<bar> < 53" using assms(1) by (intro ilog2_upper) simp_all
  then show ?thesis by (simp add: quantumExp_def)
qed

lemma scaled_int:
  assumes "e \<le> 0"
  shows "(of_int n :: rat) / 2 powi e = of_int (n * 2 ^ nat (- e))"
    and "(of_int (n * 2 ^ nat (- e)) :: rat) * 2 powi e = of_int n"
proof -
  have e: "(2::rat) powi e = inverse (2 ^ nat (- e))"
    using assms by (simp add: power_int_def inverse_eq_divide power_one_over)
  show "(of_int n :: rat) / 2 powi e = of_int (n * 2 ^ nat (- e))"
    by (simp add: e divide_inverse)
  show "(of_int (n * 2 ^ nat (- e)) :: rat) * 2 powi e = of_int n"
    by (simp add: e)
qed

lemma roundDouble_exact:
  assumes "\<bar>n\<bar> < 2 ^ 53"
  shows "roundDouble (of_int n) = Finite (of_int n)"
proof (cases "n = 0")
  case True
  then show ?thesis by (simp add: roundDouble_def)
next
  case False
  let ?x = "of_int n :: rat"
  have x0: "?x \<noteq> 0" using False by simp
  have "\<bar>?x\<bar> = of_int \<bar>n\<bar>" by simp
  also have "\<dots> < of_int (2 ^ 53)" using assms by (simp only: of_int_less_iff)
  finally have small: "\<bar>?x\<bar> < 2 ^ 53" by simp
  have e: "quantumExp ?x \<le> 0" by (rule quantumExp_nonpos [OF x0 small])
  have r: "of_int (roundHalfEven (?x / 2 powi quantumExp ?x)) * 2 powi quantumExp ?x = ?x"
    by (simp only: scaled_int [OF e] roundHalfEven_of_int)
  have "\<bar>?x\<bar> < 2 powi 1024" using small by (simp add: power_int_def) 
  then have "ilog2 \<bar>?x\<bar> < 1024" using x0 by (intro ilog2_upper) simp_all
  then show ?thesis using x0 by (simp add: roundDouble_def Let_def r)
qed

lemma roundDouble_of_int_integral:
  assumes "roundDouble (of_int n) = Finite r"
  shows "\<exists>z. r = of_int z"
proof (cases "quantumExp (of_int n) \<le> 0")
  case True
  have "r = of_int n"
    unfolding roundDouble_Finite [OF assms] by (simp only: scaled_int [OF True] roundHalfEven_of_int)
  then show ?thesis by blast
next
  case False
  let ?e = "quantumExp (of_int n)"
  have "(2::rat) powi ?e = 2 ^ nat ?e" using False by (simp add: power_int_def)
  then have "r = of_int (roundHalfEven (of_int n / 2 powi ?e) * 2 ^ nat ?e)"
    unfolding roundDouble_Finite [OF assms] by simp
  then show ?thesis by blast
qed

lemma roundDouble_error:
  assumes "roundDouble x = Finite r"
  shows "\<bar>r - x\<bar> \<le> 2 powi quantumExp x / 2"
proof -
  let ?q = "(2::rat) powi quantumExp x"
  have q: "0 < ?q" by simp
  have "r - x = (of_int (roundHalfEven (x / ?q)) - x / ?q) * ?q"
    unfolding roundDouble_Finite [OF assms] using q by (simp add: left_diff_distrib)
  then have "\<bar>r - x\<bar> = \<bar>of_int (roundHalfEven (x / ?q)) - x / ?q\<bar> * ?q"
    using q by (simp only: abs_mult abs_of_pos)
  also have "\<dots> \<le> 1 / 2 * ?q"
    using roundHalfEven_near [of "x / ?q"] q by (intro mult_right_mono) simp_all
  finally show ?thesis by simp
qed

lemma roundDouble_relative_error:
  assumes "roundDouble x = Finite r" and "2 powi (- 1022) \<le> \<bar>x\<bar>"
  shows "\<bar>r - x\<bar> \<le> \<bar>x\<bar> / 2 ^ 53"
proof -
  have pos: "0 < \<bar>x\<bar>" using assms(2) zero_less_power_int [of "2::rat" "- 1022"] by linarith
  let ?E = "ilog2 \<bar>x\<bar>"
  have "- 1022 \<le> ?E" by (rule ilog2_lower [OF pos assms(2)])
  then have qe: "quantumExp x = ?E - 52" by (simp add: quantumExp_def)
  have "(2::rat) powi (?E - 52) = 2 powi ?E / 2 ^ 52"
    by (simp add: power_int_diff)
  also have "\<dots> \<le> \<bar>x\<bar> / 2 ^ 52"
    using ilog2_bounds(1) [OF pos] by (simp add: divide_right_mono)
  finally have "2 powi quantumExp x / 2 \<le> \<bar>x\<bar> / 2 ^ 52 / 2"
    unfolding qe by (simp add: divide_right_mono)
  with roundDouble_error [OF assms(1)] show ?thesis by simp
qed

section \<open>Properties of the time resolver\<close>

lemma getTime_Moment: "getTime p (Moment v) roundUp = Inr (Math_ceil (times1e6 v))"
  by (simp add: getTime_def)

lemma Math_ceil_Finite: "Math_ceil (Finite y) = Finite (of_int \<lceil>y\<rceil>)"
  by (simp add: Math_ceil_def)

lemma times1e6_exact:
  assumes "\<bar>k * 1000000\<bar> < 2 ^ 53"
  shows "times1e6 (Finite (of_int k)) = Finite (of_int (k * 1000000))"
proof -
  have "times1e6 (Finite (of_int k)) = roundDouble (of_int (k * 1000000))"
    by (simp add: times1e6_def)
  then show ?thesis by (simp only: roundDouble_exact [OF assms])
qed

lemma times1e6_whole:
  assumes "times1e6 (Finite (of_int k)) = Finite y"
  shows "Math_ceil (Finite y) = Finite y"
proof -
  have "roundDouble (of_int (k * 1000000)) = Finite y"
    using assms by (simp add: times1e6_def)
  from roundDouble_of_int_integral [OF this] obtain z where "y = of_int z" by blast
  then show ?thesis by (simp add: Math_ceil_def)
qed

text \<open>
  Claim C6, as stated: the time resolver returns the ceiling of the moment's millisecond
  value multiplied by 1,000,000. It fails at the moment 1556270891001: the product of the
  doubles is 1556270891000999936, below the exact product 1556270891001000000, and
  \<open>Math.ceil\<close> leaves it there.
\<close>

theorem C6_counterexample:
  "getTime (dateMath_parse sample_collaborators) (Moment (Finite 1556270891001)) True
     = Inr (Finite 1556270891000999936)
   \<and> \<lceil>(1556270891001 :: rat) * 1000000\<rceil> = 1556270891001000000
   \<and> (1556270891000999936 :: rat) < 1556270891001 * 1000000"
  by code_simp

text \<open>
  Claim C6, amended: the time resolver returns \<open>Math.ceil\<close> of the double-precision
  product of the moment's millisecond value and 1,000,000. That is the ceiling, never the
  floor, of the product as rounded to the nearest double: the least integer not below the
  rounded product, one above its floor when it is not whole. The rounded product is
  within a relative error of \<open>2 ^ -53\<close> of the exact one and may lie below it; it is
  the exact product of a whole number of milliseconds when that product is below
  \<open>2 ^ 53\<close> in magnitude, and for every whole number of milliseconds it is whole, so
  that the ceiling changes nothing. For a moment the result does not depend on
  \<open>roundUp\<close>; a string is first evaluated by \<open>dateMath.parse\<close> with the same
  \<open>roundUp\<close>, and where that gives no moment, \<open>getTime\<close> throws.
\<close>

theorem C6_getTime_ceiling:
  "getTime p (Moment v) roundUp = Inr (Math_ceil (times1e6 v))
   \<and> getTime p (Moment v) True = getTime p (Moment v) False
   \<and> (p s roundUp = Some v \<longrightarrow> getTime p (DateString s) roundUp = Inr (Math_ceil (times1e6 v)))
   \<and> (p s roundUp = None \<longrightarrow> getTime p (DateString s) roundUp = Inl TypeError)
   \<and> (times1e6 (Finite x) = Finite y \<longrightarrow>
        (\<exists>t. getTime p (Moment (Finite x)) roundUp = Inr (Finite (of_int t))
            \<and> y \<le> of_int t \<and> of_int t < y + 1
            \<and> (y \<noteq> of_int \<lfloor>y\<rfloor> \<longrightarrow> t = \<lfloor>y\<rfloor> + 1))
      \<and> (2 powi (- 1022) \<le> \<bar>x * 1000000\<bar> \<longrightarrow>
           \<bar>y - x * 1000000\<bar> \<le> \<bar>x * 1000000\<bar> / 2 ^ 53))
   \<and> (\<bar>k * 1000000\<bar> < 2 ^ 53 \<longrightarrow>
        getTime p (Moment (Finite (of_int k))) roundUp = Inr (Finite (of_int (k * 1000000))))
   \<and> (times1e6 (Finite (of_int k)) = Finite y' \<longrightarrow>
        getTime p (Moment (Finite (of_int k))) roundUp = Inr (Finite y'))"
proof (intro conjI impI)
  show "getTime p (Moment v) roundUp = Inr (Math_ceil (times1e6 v))"
    by (rule getTime_Moment)
  show "getTime p (Moment v) True = getTime p (Moment v) False"
    by (simp only: getTime_Moment)
next
  assume "p s roundUp = Some v"
  then show "getTime p (DateString s) roundUp = Inr (Math_ceil (times1e6 v))"
    by (simp add: getTime_def)
next
  assume "p s roundUp = None"
  then show "getTime p (DateString s) roundUp = Inl TypeError"
    by (simp add: getTime_def)
next
  assume y: "times1e6 (Finite x) = Finite y"
  have g: "getTime p (Moment (Finite x)) roundUp = Inr (Finite (of_int \<lceil>y\<rceil>))"
    by (simp only: getTime_Moment y Math_ceil_Finite)
  have 1: "y \<le> of_int \<lceil>y\<rceil>" by (rule le_of_int_ceiling)
  have 2: "of_int \<lceil>y\<rceil> < y + 1" using ceiling_correct [of y] by linarith
  have 3: "y \<noteq> of_int \<lfloor>y\<rfloor> \<longrightarrow> \<lceil>y\<rceil> = \<lfloor>y\<rfloor> + 1" by (simp add: ceiling_altdef)
  from g 1 2 3
  show "\<exists>t. getTime p (Moment (Finite x)) roundUp = Inr (Finite (of_int t))
            \<and> y \<le> of_int t \<and> of_int t < y + 1
            \<and> (y \<noteq> of_int \<lfloor>y\<rfloor> \<longrightarrow> t = \<lfloor>y\<rfloor> + 1)"
    by blast
next
  assume y: "times1e6 (Finite x) = Finite y"
    and n: "2 powi (- 1022) \<le> \<bar>x * 1000000\<bar>"
  have "roundDouble (x * 1000000) = Finite y" using y by (simp add: times1e6_def)
  from roundDouble_relative_error [OF this n]
  show "\<bar>y - x * 1000000\<bar> \<le> \<bar>x * 1000000\<bar> / 2 ^ 53" .
next
  assume "\<bar>k * 1000000\<bar> < 2 ^ 53"
  from times1e6_exact [OF this]
  show "getTime p (Moment (Finite (of_int k))) roundUp = Inr (Finite (of_int (k * 1000000)))"
    by (simp only: getTime_Moment Math_ceil_Finite ceiling_of_int)
next
  assume y: "times1e6 (Finite (of_int k)) = Finite y'"
  show "getTime p (Moment (Finite (of_int k))) roundUp = Inr (Finite y')"
    by (simp only: getTime_Moment y times1e6_whole [OF y])
qed

text \<open>
  At the sample date parser; at the double \<open>2 ^ -21\<close>, whose product with 1,000,000 is
  the double 15625 / 32768, where ceiling and floor differ; at a small moment; and at
  the moment of the counterexample.
\<close>

theorem C6_getTime_ceiling_witness:
  "dateMath_parse sample_collaborators ''now'' True = Some (Finite 6000)
   \<and> getTime (dateMath_parse sample_collaborators) (DateString ''now'') True
       = Inr (Finite 6000000000)
   \<and> dateMath_parse sample_collaborators ''soon'' True = None
   \<and> getTime (dateMath_parse sample_collaborators) (DateString ''soon'') True = Inl TypeError
   \<and> times1e6 (Finite (1 / 2 ^ 21)) = Finite (15625 / 32768)
   \<and> 2 powi (- 1022) \<le> \<bar>(1 / 2 ^ 21 :: rat) * 1000000\<bar>
   \<and> (15625 / 32768 :: rat) \<noteq> of_int \<lfloor>15625 / 32768 :: rat\<rfloor>
   \<and> getTime (dateMath_parse sample_collaborators) (Moment (Finite (1 / 2 ^ 21))) False
       = Inr (Finite 1)
   \<and> \<lfloor>15625 / 32768 :: rat\<rfloor> = 0
   \<and> \<bar>(9000 :: int) * 1000000\<bar> < 2 ^ 53
   \<and> getTime (dateMath_parse sample_collaborators) (Moment (Finite 9000)) False
       = Inr (Finite 9000000000)
   \<and> times1e6 (Finite 1556270891001) = Finite 1556270891000999936
   \<and> getTime (dateMath_parse sample_collaborators) (Moment (Finite 1556270891001)) False
       = Inr (Finite 1556270891000999936)"
proof -
  let ?p = "dateMath_parse sample_collaborators"
  have p: "?p ''now'' True = Some (Finite 6000)"
    by (simp add: sample_collaborators_def)
  have n: "?p ''soon'' True = None"
    by (simp add: sample_collaborators_def)
  have six: "Math_ceil (times1e6 (Finite 6000)) = Finite 6000000000"
    by code_simp
  have y: "times1e6 (Finite (1 / 2 ^ 21)) = Finite (15625 / 32768)"
    by code_simp
  have nrm: "2 powi (- 1022) \<le> \<bar>(1 / 2 ^ 21 :: rat) * 1000000\<bar>"
    by code_simp
  have fl: "\<lfloor>15625 / 32768 :: rat\<rfloor> = 0"
    by (rule floor_unique) simp_all
  have frac: "(15625 / 32768 :: rat) \<noteq> of_int \<lfloor>15625 / 32768 :: rat\<rfloor>"
    by (simp add: fl)
  have small: "\<bar>(9000 :: int) * 1000000\<bar> < 2 ^ 53"
    by simp
  have big: "times1e6 (Finite 1556270891001) = Finite 1556270891000999936"
    by code_simp
  from C6_getTime_ceiling [where p = ?p and roundUp = True and s = "''now''"
      and v = "Finite 6000" and x = 0 and y = 0 and k = 0 and y' = 0] p six
  have 1: "getTime ?p (DateString ''now'') True = Inr (Finite 6000000000)"
    by simp
  from C6_getTime_ceiling [where p = ?p and roundUp = True and s = "''soon''"
      and v = "Finite 6000" and x = 0 and y = 0 and k = 0 and y' = 0] n
  have 2: "getTime ?p (DateString ''soon'') True = Inl TypeError"
    by simp
  from C6_getTime_ceiling [where p = ?p and roundUp = False and x = "1 / 2 ^ 21"
      and y = "15625 / 32768" and s = "''soon''" and v = "Finite 6000" and k = 0 and y' = 0]
    y nrm frac
  obtain t where "getTime ?p (Moment (Finite (1 / 2 ^ 21))) False = Inr (Finite (of_int t))"
    and "t = \<lfloor>15625 / 32768 :: rat\<rfloor> + 1"
    by blast
  then have 3: "getTime ?p (Moment (Finite (1 / 2 ^ 21))) False = Inr (Finite 1)"
    by (simp add: fl)
  from C6_getTime_ceiling [where p = ?p and roundUp = False and k = 9000
      and s = "''soon''" and v = "Finite 6000" and x = 0 and y = 0 and y' = 0] small
  have 4: "getTime ?p (Moment (Finite 9000)) False = Inr (Finite 9000000000)"
    by simp
  from C6_getTime_ceiling [where p = ?p and roundUp = False and k = 1556270891001
      and y' = 1556270891000999936 and s = "''soon''" and v = "Finite 6000" and x = 0 and y = 0]
    big
  have 5: "getTime ?p (Moment (Finite 1556270891001)) False = Inr (Finite 1556270891000999936)"
    by simp
  from p 1 n 2 y nrm frac 3 fl small 4 big 5 show ?thesis by (intro conjI)
qed

section \<open>Properties of the target builder\<close>

lemma prepareQueryTarget_live:
  assumes "liveStreamOf options = Inr True"
  shows "prepareQueryTarget ds co now target options =
           Inr \<lparr>direction = ''BACKWARD'', limit = LokiDatasource.maxLines ds,
                regexp = parsed_regexp (parseQuery co (templateSrv_replace co (expr target))),
                query' = parsed_query (parseQuery co (templateSrv_replace co (expr target))),
                start = Math_ceil (times1e6 (Finite (of_int (now - 1000)))),
                end' = Math_ceil (times1e6 (Finite (of_int now)))\<rparr>"
  using assms
  by (simp add: prepareQueryTarget_def getTime_def Let_def DEFAULT_QUERY_PARAMS_def
      QueryParams.extend_def)

lemma prepareQueryTarget_historical:
  assumes "liveStreamOf options = Inr False"
    and "getTime (dateMath_parse co) (from' (range' options)) False = Inr s"
    and "getTime (dateMath_parse co) (to' (range' options)) True = Inr e"
  shows "prepareQueryTarget ds co now target options =
           Inr \<lparr>direction = ''BACKWARD'', limit = LokiDatasource.maxLines ds,
                regexp = parsed_regexp (parseQuery co (templateSrv_replace co (expr target))),
                query' = parsed_query (parseQuery co (templateSrv_replace co (expr target))),
                start = s, end' = e\<rparr>"
  using assms
  by (simp add: prepareQueryTarget_def Let_def DEFAULT_QUERY_PARAMS_def QueryParams.extend_def)

lemma prepareQueryTarget_Inr:
  assumes "prepareQueryTarget ds co now target options = Inr q"
  shows "direction q = ''BACKWARD'' \<and> limit q = LokiDatasource.maxLines ds
         \<and> regexp q = parsed_regexp (parseQuery co (templateSrv_replace co (expr target)))
         \<and> query' q = parsed_query (parseQuery co (templateSrv_replace co (expr target)))"
  using assms
  by (auto simp: prepareQueryTarget_def Let_def DEFAULT_QUERY_PARAMS_def QueryParams.extend_def
      split: sum.splits if_splits)

text \<open>
  Claim C3: every target the builder constructs has the direction \<open>BACKWARD\<close> and the
  data source's \<open>maxLines\<close> as its limit, in place of the limit of
  \<open>DEFAULT_QUERY_PARAMS\<close>.
\<close>

theorem C3_direction_limit:
  "prepareQueryTarget ds co now target options = Inr q \<Longrightarrow>
     direction q = ''BACKWARD'' \<and> limit q = LokiDatasource.maxLines ds"
  by (simp add: prepareQueryTarget_Inr)

theorem C3_direction_limit_witness:
  "\<exists>q. prepareQueryTarget sample_datasource sample_collaborators 9000 logs_target live_options = Inr q
       \<and> direction q = ''BACKWARD'' \<and> limit q = 500
       \<and> limit q \<noteq> limit DEFAULT_QUERY_PARAMS"
proof -
  have live: "liveStreamOf live_options = Inr True"
    by (simp add: liveStreamOf_def live_options_def logs_target_def)
  obtain q where q: "prepareQueryTarget sample_datasource sample_collaborators 9000 logs_target
      live_options = Inr q"
    using prepareQueryTarget_live [OF live] by blast
  from C3_direction_limit [OF q] q show ?thesis
    by (simp add: sample_datasource_maxLines DEFAULT_QUERY_PARAMS_def DEFAULT_MAX_LINES_def)
qed

section \<open>The configured limit\<close>

text \<open>
  Claim C10, as stated: on construction \<open>maxLines\<close> is \<open>parseInt(jsonData.maxLines, 10)\<close>
  when that is a nonzero number and 1000 otherwise, so that the limit of every later
  query is a positive number. The last part fails: the setting \<open>-5\<close> parses to the
  nonzero number -5, which the constructor keeps.
\<close>

theorem C10_counterexample:
  "parseInt (Some ''-5'') = Some (- 5)
   \<and> LokiDatasource.maxLines (constructor negative_settings) = - 5
   \<and> \<not> 0 < LokiDatasource.maxLines (constructor negative_settings)"
  by (simp add: constructor_maxLines negative_settings_def parseInt_def isWhiteSpace_def
      isDigit_def digitsValue_def)

text \<open>
  Claim C10, amended: \<open>maxLines\<close> is \<open>parseInt(jsonData.maxLines, 10)\<close> when that is a
  nonzero number, and 1000 when \<open>jsonData\<close> is absent or its \<open>maxLines\<close> is missing, not
  numeric or parses to 0. So the limit of every later query is a nonzero number: the
  number \<open>n\<close> for the decimal text of a positive \<open>n\<close>, and the negative number \<open>-n\<close> for
  that text after a minus sign.
\<close>

theorem C10_maxLines_nonzero:
  "LokiDatasource.maxLines (constructor settings) =
     (case jsonData settings of
        None \<Rightarrow> 1000
      | Some d \<Rightarrow>
          (case parseInt (JsonData.maxLines d) of
             None \<Rightarrow> 1000
           | Some n \<Rightarrow> (if n = 0 then 1000 else n)))
   \<and> LokiDatasource.maxLines (constructor settings) \<noteq> 0
   \<and> (jsonData settings = Some \<lparr>JsonData.maxLines = Some (showNat n)\<rparr> \<longrightarrow> 0 < n \<longrightarrow>
        LokiDatasource.maxLines (constructor settings) = int n)
   \<and> (jsonData settings = Some \<lparr>JsonData.maxLines = Some (CHR ''-'' # showNat n)\<rparr> \<longrightarrow> 0 < n \<longrightarrow>
        LokiDatasource.maxLines (constructor settings) = - int n)
   \<and> (prepareQueryTarget (constructor settings) co now target options = Inr q \<longrightarrow>
        limit q = LokiDatasource.maxLines (constructor settings) \<and> limit q \<noteq> 0)"
proof (intro conjI impI)
  show "LokiDatasource.maxLines (constructor settings) =
     (case jsonData settings of
        None \<Rightarrow> 1000
      | Some d \<Rightarrow>
          (case parseInt (JsonData.maxLines d) of
             None \<Rightarrow> 1000
           | Some n \<Rightarrow> (if n = 0 then 1000 else n)))"
    by (rule constructor_maxLines)
next
  show "LokiDatasource.maxLines (constructor settings) \<noteq> 0"
    by (rule constructor_nonzero)
next
  assume "jsonData settings = Some \<lparr>JsonData.maxLines = Some (showNat n)\<rparr>" and "0 < n"
  then show "LokiDatasource.maxLines (constructor settings) = int n"
    by (simp add: constructor_maxLines parseInt_showNat)
next
  assume "jsonData settings = Some \<lparr>JsonData.maxLines = Some (CHR ''-'' # showNat n)\<rparr>"
    and "0 < n"
  then show "LokiDatasource.maxLines (constructor settings) = - int n"
    by (simp add: constructor_maxLines parseInt_minus_showNat)
next
  assume q: "prepareQueryTarget (constructor settings) co now target options = Inr q"
  then show "limit q = LokiDatasource.maxLines (constructor settings)"
    by (simp add: prepareQueryTarget_Inr)
  with constructor_nonzero [of settings] show "limit q \<noteq> 0" by simp
qed

theorem C10_maxLines_nonzero_witness:
  "LokiDatasource.maxLines (constructor sample_settings) = 500
   \<and> LokiDatasource.maxLines (constructor negative_settings) = - 5
   \<and> (\<exists>q. prepareQueryTarget (constructor sample_settings) sample_collaborators 9000 logs_target
             live_options = Inr q \<and> limit q = 500)"
proof -
  have live: "liveStreamOf live_options = Inr True"
    by (simp add: liveStreamOf_def live_options_def logs_target_def)
  obtain q where q: "prepareQueryTarget (constructor sample_settings) sample_collaborators 9000
      logs_target live_options = Inr q"
    using prepareQueryTarget_live [OF live] by blast
  have a: "jsonData sample_settings = Some \<lparr>JsonData.maxLines = Some (showNat 500)\<rparr>"
    by (simp add: sample_settings_def showNat_500)
  have b: "jsonData negative_settings = Some \<lparr>JsonData.maxLines = Some (CHR ''-'' # showNat 5)\<rparr>"
    by (simp add: negative_settings_def showNat_5)
  from C10_maxLines_nonzero [where settings = sample_settings and n = 500
      and co = sample_collaborators and now = 9000 and target = logs_target
      and options = live_options and q = q] a q
  have 1: "LokiDatasource.maxLines (constructor sample_settings) = 500 \<and> limit q = 500"
    by simp
  from C10_maxLines_nonzero [where settings = negative_settings and n = 5
      and co = sample_collaborators and now = 9000 and target = logs_target
      and options = live_options and q = q] b
  have 2: "LokiDatasource.maxLines (constructor negative_settings) = - 5"
    by simp
  show ?thesis using 1 2 q by simp
qed

section \<open>Properties of the query executor\<close>

lemma prepareTargets_length:
  "prepareTargets ds co clock i ts options = Inr qs \<Longrightarrow> length qs = length ts"
  by (induction ts arbitrary: i qs) (auto split: sum.splits)

lemma prepareTargets_nth:
  "prepareTargets ds co clock i ts options = Inr qs \<Longrightarrow> k < length ts \<Longrightarrow>
     prepareQueryTarget ds co (clock (i + k)) (ts ! k) options = Inr (qs ! k)"
proof (induction ts arbitrary: i qs k)
  case Nil
  then show ?case by simp
next
  case (Cons t ts)
  from Cons.prems(1) obtain q qs' where q: "prepareQueryTarget ds co (clock i) t options = Inr q"
    and qs': "prepareTargets ds co clock (Suc i) ts options = Inr qs'" and qs: "qs = q # qs'"
    by (auto split: sum.splits)
  show ?case
  proof (cases k)
    case 0
    then show ?thesis using q qs by simp
  next
    case (Suc j)
    then have "j < length ts" using Cons.prems(2) by simp
    from Cons.IH [OF qs' this] show ?thesis using Suc qs by simp
  qed
qed

lemma requestAll_Cons:
  "requestAll srv ds (q # qs) issued =
     (srv issued (buildRequest ds ''/api/prom/query'' (Some q))
        # fst (requestAll srv ds qs (issued @ [buildRequest ds ''/api/prom/query'' (Some q)])),
      snd (requestAll srv ds qs (issued @ [buildRequest ds ''/api/prom/query'' (Some q)])))"
  by (simp add: loki_request_def Let_def split: prod.splits)

lemma requestAll_issued:
  "snd (requestAll srv ds qs issued) =
     issued @ map (\<lambda>q. buildRequest ds ''/api/prom/query'' (Some q)) qs"
proof (induction qs arbitrary: issued)
  case Nil
  then show ?case by simp
next
  case (Cons q qs)
  show ?case unfolding requestAll_Cons by (simp add: Cons.IH)
qed

lemma requestAll_length: "length (fst (requestAll srv ds qs issued)) = length qs"
proof (induction qs arbitrary: issued)
  case Nil
  then show ?case by simp
next
  case (Cons q qs)
  show ?case unfolding requestAll_Cons by (simp add: Cons.IH)
qed


lemma promiseAll_Inr: "promiseAll ps = Inr xs \<Longrightarrow> ps = map Inr xs"
proof (induction ps arbitrary: xs)
  case Nil
  then show ?case by simp
next
  case (Cons p ps)
  then show ?case by (cases p) (auto split: sum.splits)
qed

lemma tagStreams_nth:
  "i < length queryTargets \<Longrightarrow>
     tagStreams (nthOpt queryTargets i) (streamsOrEmpty d) =
       Inr (streamsOfResult (queryTargets ! i) (Some \<lparr>data = Some d\<rparr>))"
  by (simp add: tagStreams_def nthOpt_def streamsOfResult_def streamsOrEmpty_def
      split: option.splits)

lemma streamsOfResult_no_data:
  "data result = None \<Longrightarrow> streamsOfResult q (Some result) = []"
  by (simp add: streamsOfResult_def)

lemma collectStreams_char:
  assumes "length queryTargets = length results"
  shows "collectStreams i results queryTargets acc =
           (if list_all (\<lambda>r. r \<noteq> None) (drop i results)
            then Inr (acc @ concat (map2 streamsOfResult (drop i queryTargets) (drop i results)))
            else Inl TypeError)"
  using assms
proof (induction i results queryTargets acc rule: collectStreams.induct)
  case (1 i results queryTargets allStreams)
  show ?case
  proof (cases "i < length results")
    case False
    then show ?thesis using "1.prems" by (subst collectStreams.simps) simp
  next
    case True
    then have iq: "i < length queryTargets" using "1.prems" by simp
    have dr: "drop i results = results ! i # drop (Suc i) results"
      using True by (simp add: Cons_nth_drop_Suc)
    have dq: "drop i queryTargets = queryTargets ! i # drop (Suc i) queryTargets"
      using iq by (simp add: Cons_nth_drop_Suc)
    show ?thesis
    proof (cases "results ! i")
      case None
      then show ?thesis using True dr by (subst collectStreams.simps) simp
    next
      case (Some result)
      show ?thesis
      proof (cases "data result")
        case None
        have "collectStreams i results queryTargets allStreams =
                collectStreams (Suc i) results queryTargets allStreams"
          using True Some None by (subst collectStreams.simps) simp
        also have "\<dots> = (if list_all (\<lambda>r. r \<noteq> None) (drop (Suc i) results)
            then Inr (allStreams @ concat (map2 streamsOfResult (drop (Suc i) queryTargets)
                                             (drop (Suc i) results)))
            else Inl TypeError)"
          using "1.IH"(1) [OF True Some None "1.prems"] .
        finally show ?thesis
          using Some None by (simp add: dr dq streamsOfResult_no_data)
      next
        case (Some d)
        have res: "result = \<lparr>data = Some d\<rparr>" using Some by (cases result) simp
        let ?tagged = "streamsOfResult (queryTargets ! i) (Some \<lparr>data = Some d\<rparr>)"
        have tg: "tagStreams (nthOpt queryTargets i) (streamsOrEmpty d) = Inr ?tagged"
          by (rule tagStreams_nth [OF iq])
        have "collectStreams i results queryTargets allStreams =
                collectStreams (Suc i) results queryTargets (allStreams @ ?tagged)"
          using True \<open>results ! i = Some result\<close> Some tg
          by (subst collectStreams.simps) simp
        also have "\<dots> = (if list_all (\<lambda>r. r \<noteq> None) (drop (Suc i) results)
            then Inr ((allStreams @ ?tagged) @ concat (map2 streamsOfResult
                        (drop (Suc i) queryTargets) (drop (Suc i) results)))
            else Inl TypeError)"
          using "1.IH"(2) [OF True \<open>results ! i = Some result\<close> Some tg "1.prems"] .
        finally show ?thesis
          using \<open>results ! i = Some result\<close> res by (simp add: dr dq)
      qed
    qed
  qed
qed

lemma query_no_survivors:
  assumes "filter isActive (targets options) = []"
  shows "query ds co clock srv options issued = (Inr (Result []), issued)"
  using assms by (simp add: query_def)

lemma query_survivors:
  assumes prep: "prepareTargets ds co clock 0 (filter isActive (targets options)) options
                   = Inr queryTargets"
    and ne: "queryTargets \<noteq> []"
    and all: "promiseAll (fst (requestAll srv ds queryTargets issued)) = Inr results"
  shows "query ds co clock srv options issued =
           ((if list_all (\<lambda>r. r \<noteq> None) results
             then shapeResult ds co options (concat (map2 streamsOfResult queryTargets results))
             else Inl TypeError),
            issued @ map (\<lambda>q. buildRequest ds ''/api/prom/query'' (Some q)) queryTargets)"
proof -
  have len: "length queryTargets = length results"
    using promiseAll_Inr [OF all] requestAll_length [of srv ds queryTargets issued]
    by (metis length_map)
  obtain queries issued' where ra: "requestAll srv ds queryTargets issued = (queries, issued')"
    by (cases "requestAll srv ds queryTargets issued")
  have q: "promiseAll queries = Inr results" using all ra by simp
  have i: "issued' = issued @ map (\<lambda>q. buildRequest ds ''/api/prom/query'' (Some q)) queryTargets"
    using requestAll_issued [of srv ds queryTargets issued] ra by simp
  show ?thesis
    using ne by (simp add: query_def prep ra q i collectStreams_char [OF len])
qed

lemma query_Inr_cases:
  assumes "query ds co clock srv options issued = (Inr r, issued')"
    and "filter isActive (targets options) \<noteq> []"
  obtains queryTargets results where
    "prepareTargets ds co clock 0 (filter isActive (targets options)) options = Inr queryTargets"
    "queryTargets \<noteq> []"
    "fst (requestAll srv ds queryTargets issued) = map Inr results"
    "list_all (\<lambda>r. r \<noteq> None) results"
    "shapeResult ds co options (concat (map2 streamsOfResult queryTargets results)) = Inr r"
    "issued' = issued @ map (\<lambda>q. buildRequest ds ''/api/prom/query'' (Some q)) queryTargets"
proof -
  from assms(1) obtain queryTargets where
    prep: "prepareTargets ds co clock 0 (filter isActive (targets options)) options = Inr queryTargets"
    by (auto simp: query_def split: sum.splits)
  have ne: "queryTargets \<noteq> []"
    using prepareTargets_length [OF prep] assms(2) by auto
  from assms(1) prep ne obtain results where
    all: "promiseAll (fst (requestAll srv ds queryTargets issued)) = Inr results"
    by (auto simp: query_def split: sum.splits prod.splits)
  from query_survivors [OF prep ne all] assms(1)
  have "list_all (\<lambda>r. r \<noteq> None) results"
    and "shapeResult ds co options (concat (map2 streamsOfResult queryTargets results)) = Inr r"
    and "issued' = issued @ map (\<lambda>q. buildRequest ds ''/api/prom/query'' (Some q)) queryTargets"
    by (auto split: if_splits)
  with prep ne promiseAll_Inr [OF all] that show ?thesis by blast
qed

section \<open>Properties of the streaming executor\<close>

lemma isActive_iff: "isActive t \<longleftrightarrow> \<not> isSuppressed t"
  by (simp add: isActive_def isSuppressed_def)

lemma streamAll_Cons:
  "streamAll srv ds (q # qs) issued =
     (srv issued (buildRequest ds ''/api/prom/query'' (Some q))
        # fst (streamAll srv ds qs (issued @ [buildRequest ds ''/api/prom/query'' (Some q)])),
      snd (streamAll srv ds qs (issued @ [buildRequest ds ''/api/prom/query'' (Some q)])))"
  by (simp add: loki_stream_def Let_def split: prod.splits)

lemma streamAll_issued:
  "snd (streamAll srv ds qs issued) =
     issued @ map (\<lambda>q. buildRequest ds ''/api/prom/query'' (Some q)) qs"
proof (induction qs arbitrary: issued)
  case Nil
  then show ?case by simp
next
  case (Cons q qs)
  show ?case unfolding streamAll_Cons by (simp add: Cons.IH)
qed

lemma streamAll_length: "length (fst (streamAll srv ds qs issued)) = length qs"
proof (induction qs arbitrary: issued)
  case Nil
  then show ?case by simp
next
  case (Cons q qs)
  show ?case unfolding streamAll_Cons by (simp add: Cons.IH)
qed

lemma mapUntilError_Inr:
  "(\<And>x. f x = Inr (g x)) \<Longrightarrow> mapUntilError f xs = (map g xs, None)"
  by (induction xs) simp_all

lemma shapeResult_Cons:
  "targets options = t0 # rest \<Longrightarrow>
     shapeResult ds co options allStreams =
       Inr (if format t0 = Some ''time_series'' then seriesShape ds co options allStreams
            else streamShape allStreams)"
  by (simp add: shapeResult_def)

lemma forkJoin_Nil: "forkJoin [] = \<lparr>emitted = [], ending = Completes\<rparr>"
  by (simp add: forkJoin_def)

lemma forkJoin_emitted_length: "length (emitted (forkJoin obs)) \<le> 1"
  by (simp add: forkJoin_def split: option.splits)


lemma resultPipe_Cons:
  assumes "targets options = t0 # rest"
  shows "resultPipe ds co options streamsS =
           \<lparr>emitted = map (\<lambda>allStreams. if format t0 = Some ''time_series''
                                        then seriesShape ds co options allStreams
                                        else streamShape allStreams)
                         (concat (emitted (forkJoin streamsS))),
            ending = ending (forkJoin streamsS)\<rparr>"
  using mapUntilError_Inr [of "shapeResult ds co options", OF shapeResult_Cons [OF assms]]
  by (simp add: resultPipe_def Let_def)

lemma resultPipe_Nil: "resultPipe ds co options [] = \<lparr>emitted = [], ending = Completes\<rparr>"
  by (simp add: resultPipe_def forkJoin_Nil)

lemma requestStream_Inr:
  assumes "prepareTargets ds co clock 0 (filter isActive (targets options)) options = Inr prepared"
  shows "requestStream ds co clock srv options issued =
           (Inr (mergeEmpty (replicate (length (filter isSuppressed (targets options))) EMPTY)
                   (resultPipe ds co options
                      (map2 (\<lambda>target ob. mapObservable (streamsOfResult target) ob) prepared
                         (fst (streamAll srv ds prepared issued))))),
            issued @ map (\<lambda>q. buildRequest ds ''/api/prom/query'' (Some q)) prepared)"
proof -
  obtain obs issued' where sa: "streamAll srv ds prepared issued = (obs, issued')"
    by (cases "streamAll srv ds prepared issued")
  have "issued' = issued @ map (\<lambda>q. buildRequest ds ''/api/prom/query'' (Some q)) prepared"
    using streamAll_issued [of srv ds prepared issued] sa by simp
  then show ?thesis
    using assms sa by (simp add: requestStream_def Let_def map_replicate_const)
qed

lemma requestStream_Inl:
  assumes "prepareTargets ds co clock 0 (filter isActive (targets options)) options = Inl e"
  shows "requestStream ds co clock srv options issued = (Inl e, issued)"
  using assms by (simp add: requestStream_def)

section \<open>Suppressed targets, result shape and search tags\<close>

lemma no_survivors: "list_all isSuppressed ts \<Longrightarrow> filter isActive ts = []"
  by (simp add: filter_empty_conv list_all_iff isActive_iff)

text \<open>
  Claim C5: when every supplied target is suppressed (hidden, or with an empty
  expression), \<open>query\<close> resolves with the empty result \<open>{ data: [] }\<close>, and the log of
  issued requests is as it was: no backend request is made.
\<close>

theorem C5_all_suppressed:
  "list_all isSuppressed (targets options) \<Longrightarrow>
     query ds co clock srv options issued = (Inr (Result []), issued)"
  by (simp add: no_survivors query_no_survivors)

text \<open>A batch of one hidden target and one target with an empty expression.\<close>

theorem C5_all_suppressed_witness:
  "list_all isSuppressed (targets suppressed_options)
   \<and> query sample_datasource sample_collaborators sample_clock sample_backend suppressed_options []
       = (Inr (Result []), [])"
proof -
  have s: "list_all isSuppressed (targets suppressed_options)"
    by (simp add: suppressed_options_def isSuppressed_def hidden_series_target_def
        empty_target_def)
  from C5_all_suppressed [OF s, of sample_datasource sample_collaborators sample_clock
      sample_backend "[]"] s
  show ?thesis by simp
qed

text \<open>
  Claim C2, as stated: the shape of the result is chosen by the display mode of the first
  target of the batch that is not suppressed. It fails on a batch whose first target is
  hidden and in time series mode, and whose second, the only surviving one, is in logs
  mode: the result is the derived series, not the list of tagged streams.
\<close>

theorem C2_counterexample:
  "filter isActive (targets mixed_options) = [logs_target]
   \<and> format logs_target = Some ''logs''
   \<and> fst (query sample_datasource sample_collaborators sample_clock sample_backend
            mixed_options []) = Inr (Result [SeriesItem 1])
   \<and> fst (query sample_datasource sample_collaborators sample_clock sample_backend
            mixed_options []) \<noteq> Inr (streamShape [tagStream ''err'' (sample_stream ''{job=a}'')])"
  by code_simp

text \<open>
  Claim C2, amended: for a batch with a surviving target, the shape of the result (the
  derived series in time series mode, the tagged streams otherwise) is chosen by the
  display mode of the first target of the batch, \<open>options.targets[0]\<close>, suppressed or
  not. The same holds for every result that \<open>requestStream\<close> delivers.
\<close>

theorem C2_shape_by_first_target:
  assumes "targets options = t0 # rest"
  shows "(filter isActive (targets options) \<noteq> [] \<longrightarrow>
          query ds co clock srv options issued = (Inr r, issued') \<longrightarrow>
            (\<exists>allStreams. r = (if format t0 = Some ''time_series''
                               then seriesShape ds co options allStreams
                               else streamShape allStreams)))
       \<and> (requestStream ds co clock ssrv options issued = (Inr ob, issued'') \<longrightarrow>
            (\<forall>v \<in> set (emitted ob). v = EMPTY \<or>
               (\<exists>allStreams. v = Value (if format t0 = Some ''time_series''
                                         then seriesShape ds co options allStreams
                                         else streamShape allStreams))))"
proof (intro conjI impI)
  assume ne: "filter isActive (targets options) \<noteq> []"
    and q: "query ds co clock srv options issued = (Inr r, issued')"
  from query_Inr_cases [OF q ne] obtain queryTargets results where
    "shapeResult ds co options (concat (map2 streamsOfResult queryTargets results)) = Inr r"
    by blast
  then show "\<exists>allStreams. r = (if format t0 = Some ''time_series''
                               then seriesShape ds co options allStreams
                               else streamShape allStreams)"
    unfolding shapeResult_Cons [OF assms] by blast
next
  assume rs: "requestStream ds co clock ssrv options issued = (Inr ob, issued'')"
  then obtain prepared where
    prep: "prepareTargets ds co clock 0 (filter isActive (targets options)) options = Inr prepared"
    by (auto simp: requestStream_def Let_def split: sum.splits)
  let ?shape = "\<lambda>allStreams. if format t0 = Some ''time_series''
                   then seriesShape ds co options allStreams else streamShape allStreams"
  from rs requestStream_Inr [OF prep, of ssrv issued] resultPipe_Cons [OF assms, of ds co]
  obtain xs where "emitted ob = replicate (length (filter isSuppressed (targets options))) EMPTY
      @ map Value (map ?shape xs)"
    by (auto simp: mergeEmpty_def)
  then show "\<forall>v \<in> set (emitted ob). v = EMPTY \<or> (\<exists>allStreams. v = Value (?shape allStreams))"
    by auto
qed


lemma tagStream_search: "search (tagStream r s) = Some r"
  by (simp add: tagStream_def)



text \<open>The batch of the counterexample: the hidden first target decides.\<close>

theorem C2_shape_by_first_target_witness:
  "targets mixed_options = hidden_series_target # [logs_target]
   \<and> filter isActive (targets mixed_options) \<noteq> []
   \<and> format hidden_series_target = Some ''time_series''
   \<and> fst (query sample_datasource sample_collaborators sample_clock sample_backend mixed_options [])
       = Inr (Result [SeriesItem 1])
   \<and> (\<exists>allStreams. Result [SeriesItem 1] =
         seriesShape sample_datasource sample_collaborators mixed_options allStreams)
   \<and> map_sum id emitted (fst (requestStream sample_datasource sample_collaborators sample_clock
         sample_stream_backend mixed_options [])) = Inr [EMPTY, Value (Result [SeriesItem 1])]"
proof -
  let ?q = "query sample_datasource sample_collaborators sample_clock sample_backend mixed_options []"
  let ?s = "requestStream sample_datasource sample_collaborators sample_clock
              sample_stream_backend mixed_options []"
  have t: "targets mixed_options = hidden_series_target # [logs_target]"
    by (simp add: mixed_options_def)
  have ne: "filter isActive (targets mixed_options) \<noteq> []"
    by (simp add: mixed_options_def isActive_def logs_target_def)
  have fm: "format hidden_series_target = Some ''time_series''"
    by (simp add: hidden_series_target_def)
  have f: "fst ?q = Inr (Result [SeriesItem 1])"
    by code_simp
  then have q: "?q = (Inr (Result [SeriesItem 1]), snd ?q)"
    by (metis prod.collapse)
  have g: "fst ?s = Inr \<lparr>emitted = [EMPTY, Value (Result [SeriesItem 1])], ending = Completes\<rparr>"
    by code_simp
  then have s: "?s = (Inr \<lparr>emitted = [EMPTY, Value (Result [SeriesItem 1])], ending = Completes\<rparr>,
                      snd ?s)"
    by (metis prod.collapse)
  from C2_shape_by_first_target [OF t, of sample_datasource sample_collaborators sample_clock
      sample_backend "[]" "Result [SeriesItem 1]" "snd ?q" sample_stream_backend
      "\<lparr>emitted = [EMPTY, Value (Result [SeriesItem 1])], ending = Completes\<rparr>" "snd ?s"]
    ne q s fm
  have "\<exists>allStreams. Result [SeriesItem 1] =
         seriesShape sample_datasource sample_collaborators mixed_options allStreams"
    by simp
  then show ?thesis using t ne fm f g by simp
qed


section \<open>Properties of the connectivity check\<close>

lemma testDatasource_resolved:
  assumes "srv issued (buildRequest ds ''/api/prom/label'' None) = Inr res"
  shows "testDatasource srv ds issued =
           (Inr (if labelsFound res
                 then \<lparr>status = ''success'', message = ''Data source connected and labels found.''\<rparr>
                 else \<lparr>status = ''error'',
                       message = ''Data source connected, but no labels received. Verify that Loki and Promtail is configured properly.''\<rparr>),
            issued @ [buildRequest ds ''/api/prom/label'' None])"
  using assms by (simp add: testDatasource_def loki_request_def Let_def)

lemma testDatasource_rejected:
  assumes "srv issued (buildRequest ds ''/api/prom/label'' None) = Inl (Some err)"
  shows "testDatasource srv ds issued =
           (Inr \<lparr>status = ''error'', message = errorMessage err\<rparr>,
            issued @ [buildRequest ds ''/api/prom/label'' None])"
  using assms by (simp add: testDatasource_def loki_request_def Let_def)

lemma errorMessage_prefix: "take 6 (errorMessage err) = ''Loki: ''"
  by (simp add: errorMessage_def Let_def split: err_data.splits option.splits)

text \<open>
  Claim C9, as stated: when the label request succeeds with no label, \<open>testDatasource\<close>
  resolves with a result reported as a soft warning rather than a hard failure. The
  result does resolve, but its status is \<open>error\<close>, the status of a failed request.
\<close>

theorem C9_counterexample:
  "labelsFound (sample_response (buildRequest sample_datasource ''/api/prom/label'' None)) = False
   \<and> fst (testDatasource sample_backend sample_datasource []) =
       Inr \<lparr>status = ''error'',
            message = ''Data source connected, but no labels received. Verify that Loki and Promtail is configured properly.''\<rparr>
   \<and> fst (testDatasource failing_backend sample_datasource []) =
       Inr \<lparr>status = ''error'', message = ''Loki: Bad Gateway. 502''\<rparr>
   \<and> map_sum id status (fst (testDatasource sample_backend sample_datasource [])) =
       map_sum id status (fst (testDatasource failing_backend sample_datasource []))"
  by code_simp

text \<open>
  Claim C9, amended: when the label request succeeds with no label, \<open>testDatasource\<close>
  resolves (it does not throw) with the status \<open>error\<close> and the message
  \<open>Data source connected, but no labels received. ...\<close>. A rejected request resolves
  with the same status; its message starts with \<open>Loki: \<close>.
\<close>

theorem C9_no_labels:
  "(srv issued (buildRequest ds ''/api/prom/label'' None) = Inr res \<longrightarrow> \<not> labelsFound res \<longrightarrow>
      testDatasource srv ds issued =
        (Inr \<lparr>status = ''error'',
              message = ''Data source connected, but no labels received. Verify that Loki and Promtail is configured properly.''\<rparr>,
         issued @ [buildRequest ds ''/api/prom/label'' None]))
   \<and> (srv issued (buildRequest ds ''/api/prom/label'' None) = Inl (Some err) \<longrightarrow>
      (\<exists>m. testDatasource srv ds issued =
         (Inr \<lparr>status = ''error'', message = m\<rparr>,
          issued @ [buildRequest ds ''/api/prom/label'' None])
         \<and> take 6 m = ''Loki: ''))"
  by (simp add: testDatasource_resolved testDatasource_rejected errorMessage_prefix)

text \<open>The sample backend, which has no labels, and the backend that rejects.\<close>

theorem C9_no_labels_witness:
  "sample_backend [] (buildRequest sample_datasource ''/api/prom/label'' None)
     = Inr (sample_response (buildRequest sample_datasource ''/api/prom/label'' None))
   \<and> \<not> labelsFound (sample_response (buildRequest sample_datasource ''/api/prom/label'' None))
   \<and> testDatasource sample_backend sample_datasource [] =
        (Inr \<lparr>status = ''error'',
              message = ''Data source connected, but no labels received. Verify that Loki and Promtail is configured properly.''\<rparr>,
         [buildRequest sample_datasource ''/api/prom/label'' None])
   \<and> (\<exists>m. testDatasource failing_backend sample_datasource [] =
         (Inr \<lparr>status = ''error'', message = m\<rparr>,
          [buildRequest sample_datasource ''/api/prom/label'' None])
         \<and> take 6 m = ''Loki: '')"
proof -
  let ?req = "buildRequest sample_datasource ''/api/prom/label'' None"
  have a: "sample_backend [] ?req = Inr (sample_response ?req)"
    by (simp add: sample_backend_def)
  have b: "\<not> labelsFound (sample_response ?req)"
    by (simp add: labelsFound_def sample_response_def buildRequest_def)
  have c: "failing_backend [] ?req =
      Inl (Some \<lparr>err_statusText = ''Bad Gateway'', err_status = 502, err_data = NoData\<rparr>)"
    by (simp add: failing_backend_def)
  from C9_no_labels [of sample_backend "[]" sample_datasource "sample_response ?req"] a b
  have 1: "testDatasource sample_backend sample_datasource [] =
        (Inr \<lparr>status = ''error'',
              message = ''Data source connected, but no labels received. Verify that Loki and Promtail is configured properly.''\<rparr>,
         [?req])"
    by simp
  from C9_no_labels [of failing_backend "[]" sample_datasource _
      "\<lparr>err_statusText = ''Bad Gateway'', err_status = 502, err_data = NoData\<rparr>"] c
  have 2: "\<exists>m. testDatasource failing_backend sample_datasource [] =
         (Inr \<lparr>status = ''error'', message = m\<rparr>, [?req]) \<and> take 6 m = ''Loki: ''"
    by simp
  show ?thesis using a b 1 2 by simp
qed

section \<open>Suppressed targets in streaming execution\<close>

lemma forkJoin_concat_length: "length (concat (emitted (forkJoin obs))) \<le> length obs"
  by (simp add: forkJoin_def split: option.splits)

lemma mapUntilError_length:
  "mapUntilError f xs = (ys, r) \<Longrightarrow> length ys \<le> length xs"
  by (induction xs arbitrary: ys r) (auto split: sum.splits prod.splits)

lemma resultPipe_length: "length (emitted (resultPipe ds co options streamsS)) \<le> length streamsS"
proof -
  obtain vs r where m: "mapUntilError (shapeResult ds co options)
      (concat (emitted (forkJoin streamsS))) = (vs, r)"
    by (cases "mapUntilError (shapeResult ds co options) (concat (emitted (forkJoin streamsS)))")
  have "emitted (resultPipe ds co options streamsS) = vs"
    using m by (simp add: resultPipe_def Let_def split: option.splits)
  then show ?thesis
    using mapUntilError_length [OF m] forkJoin_concat_length [of streamsS] by simp
qed

lemma prepared_from_active:
  assumes "prepareTargets ds co clock i ts options = Inr prepared"
    and "q \<in> set prepared"
  shows "\<exists>t \<in> set ts. \<exists>now. prepareQueryTarget ds co now t options = Inr q"
proof -
  from assms(2) obtain k where k: "k < length prepared" "prepared ! k = q"
    by (auto simp: in_set_conv_nth)
  have kt: "k < length ts" using prepareTargets_length [OF assms(1)] k by simp
  from prepareTargets_nth [OF assms(1) kt] k kt show ?thesis
    by (metis nth_mem)
qed

lemma requestStream_issued:
  assumes "requestStream ds co clock srv options issued = (x, issued')"
  shows "issued' = issued \<and> (\<exists>e. x = Inl e)
       \<or> (\<exists>prepared. prepareTargets ds co clock 0 (filter isActive (targets options)) options
                          = Inr prepared
            \<and> issued' = issued @ map (\<lambda>q. buildRequest ds ''/api/prom/query'' (Some q)) prepared
            \<and> (\<exists>ob. x = Inr ob))"
proof (cases "prepareTargets ds co clock 0 (filter isActive (targets options)) options")
  case (Inl e)
  from requestStream_Inl [OF Inl, of srv issued] assms show ?thesis by simp
next
  case (Inr prepared)
  from requestStream_Inr [OF Inr, of srv issued] assms
  have "issued' = issued @ map (\<lambda>q. buildRequest ds ''/api/prom/query'' (Some q)) prepared"
    and "\<exists>ob. x = Inr ob"
    by simp_all
  with Inr show ?thesis by blast
qed

lemma tickRequests_invariant:
  assumes "tickRequests ds co clocks srv options n issued = (running, issued')"
  shows "\<exists>extra m. issued' = issued @ extra \<and> m \<le> n
           \<and> length extra = m * length (filter isActive (targets options))
           \<and> (\<forall>r \<in> set extra. \<exists>t \<in> set (targets options). \<exists>now q.
                 isActive t \<and> prepareQueryTarget ds co now t options = Inr q
               \<and> r = buildRequest ds ''/api/prom/query'' (Some q))"
  using assms
proof (induction n arbitrary: running issued')
  case 0
  then show ?case by simp
next
  case (Suc n)
  let ?P = "\<lambda>r. \<exists>t \<in> set (targets options). \<exists>now q.
                 isActive t \<and> prepareQueryTarget ds co now t options = Inr q
               \<and> r = buildRequest ds ''/api/prom/query'' (Some q)"
  let ?L = "length (filter isActive (targets options))"
  obtain run1 issued1 where t1: "tickRequests ds co clocks srv options n issued = (run1, issued1)"
    by (cases "tickRequests ds co clocks srv options n issued")
  from Suc.IH [OF t1] obtain extra m where
    ih: "issued1 = issued @ extra" "m \<le> n" "length extra = m * ?L" "\<forall>r \<in> set extra. ?P r"
    by blast
  show ?case
  proof (cases run1)
    case False
    then have "issued' = issued1" using Suc.prems t1 by simp
    with ih show ?thesis by (metis le_Suc_eq)
  next
    case True
    obtain x issued2 where rs: "requestStream ds co (clocks n) srv options issued1 = (x, issued2)"
      by (cases "requestStream ds co (clocks n) srv options issued1")
    have i2: "issued' = issued2"
      using Suc.prems t1 True rs by (simp split: sum.splits)
    from requestStream_issued [OF rs] show ?thesis
    proof (elim disjE conjE exE)
      assume "issued2 = issued1"
      with i2 ih show ?thesis by (metis le_Suc_eq)
    next
      fix prepared ob
      assume prep: "prepareTargets ds co (clocks n) 0 (filter isActive (targets options)) options
                      = Inr prepared"
        and iss: "issued2 = issued1 @ map (\<lambda>q. buildRequest ds ''/api/prom/query'' (Some q)) prepared"
      let ?new = "map (\<lambda>q. buildRequest ds ''/api/prom/query'' (Some q)) prepared"
      have len: "length ?new = ?L" using prepareTargets_length [OF prep] by simp
      have new: "\<forall>r \<in> set ?new. ?P r"
      proof
        fix r assume "r \<in> set ?new"
        then obtain q where q: "q \<in> set prepared"
          and r: "r = buildRequest ds ''/api/prom/query'' (Some q)"
          by auto
        from prepared_from_active [OF prep q] obtain t now where
          "t \<in> set (filter isActive (targets options))"
          "prepareQueryTarget ds co now t options = Inr q"
          by blast
        then show "?P r" using r by auto
      qed
      have a: "issued' = issued @ (extra @ ?new)" using i2 iss ih(1) by simp
      have b: "Suc m \<le> Suc n" using ih(2) by simp
      have c: "length (extra @ ?new) = Suc m * ?L" using ih(3) len by simp
      have d: "\<forall>r \<in> set (extra @ ?new). ?P r" using ih(4) new by auto
      from a b c d show ?thesis by blast
    qed
  qed
qed

text \<open>
  Claim C8, as stated: in streaming execution a suppressed target makes no backend call,
  and its slot in the output is an empty result, so that the output keeps the positions
  of the input targets. The second part fails on a batch of a surviving target followed
  by a hidden one: the first thing delivered is the \<open>EMPTY\<close> of the hidden second
  target, and the result of the first target comes after it.
\<close>

theorem C8_counterexample:
  "map isSuppressed (targets positional_options) = [False, True]
   \<and> map_sum id emitted
        (fst (requestStream sample_datasource sample_collaborators sample_clock
                sample_stream_backend positional_options []))
       = Inr [EMPTY,
              Value (Result [StreamItem ((sample_stream ''{job=a}'')\<lparr>search := Some ''err''\<rparr>)])]"
  by code_simp

text \<open>
  Claim C8, amended: a suppressed target makes no backend call on any tick. One call of
  \<open>requestStream\<close> issues exactly one request per target that is not suppressed, and
  so does every tick that runs; each request issued is built from such a target. The
  output is one \<open>EMPTY\<close> per suppressed target, all ahead of the results of the
  surviving targets, of which there are at most as many as surviving targets: the
  positions of the input targets are not kept.
\<close>

theorem C8_suppressed_targets:
  "(requestStream ds co clock srv options issued = (Inr ob, issued') \<longrightarrow>
      (\<exists>prepared vs.
          prepareTargets ds co clock 0 (filter isActive (targets options)) options = Inr prepared
        \<and> length prepared = length (filter (\<lambda>t. \<not> isSuppressed t) (targets options))
        \<and> issued' = issued @ map (\<lambda>q. buildRequest ds ''/api/prom/query'' (Some q)) prepared
        \<and> emitted ob =
            replicate (length (filter isSuppressed (targets options))) EMPTY @ map Value vs
        \<and> length vs \<le> length prepared))
   \<and> (tickRequests ds co clocks srv options n issued = (running, issued'') \<longrightarrow>
      (\<exists>extra m.
          issued'' = issued @ extra \<and> m \<le> n
        \<and> length extra = m * length (filter (\<lambda>t. \<not> isSuppressed t) (targets options))
        \<and> (\<forall>r \<in> set extra. \<exists>t \<in> set (targets options). \<exists>now q.
              \<not> isSuppressed t \<and> prepareQueryTarget ds co now t options = Inr q
            \<and> r = buildRequest ds ''/api/prom/query'' (Some q))))"
proof (intro conjI impI)
  assume rs: "requestStream ds co clock srv options issued = (Inr ob, issued')"
  then obtain prepared where
    prep: "prepareTargets ds co clock 0 (filter isActive (targets options)) options = Inr prepared"
    by (auto simp: requestStream_def Let_def split: sum.splits)
  let ?streamsS = "map2 (\<lambda>target ob. mapObservable (streamsOfResult target) ob) prepared
                     (fst (streamAll srv ds prepared issued))"
  let ?vs = "emitted (resultPipe ds co options ?streamsS)"
  have act: "filter isActive (targets options) = filter (\<lambda>t. \<not> isSuppressed t) (targets options)"
    by (rule filter_cong) (simp_all add: isActive_iff)
  have 1: "length prepared = length (filter (\<lambda>t. \<not> isSuppressed t) (targets options))"
    using prepareTargets_length [OF prep] act by simp
  have 2: "issued' = issued @ map (\<lambda>q. buildRequest ds ''/api/prom/query'' (Some q)) prepared"
    and 3: "emitted ob =
              replicate (length (filter isSuppressed (targets options))) EMPTY @ map Value ?vs"
    using rs requestStream_Inr [OF prep, of srv issued] by (auto simp: mergeEmpty_def)
  have "length ?vs \<le> length ?streamsS" by (rule resultPipe_length)
  then have 4: "length ?vs \<le> length prepared" by (simp add: streamAll_length)
  from prep 1 2 3 4
  show "\<exists>prepared vs.
          prepareTargets ds co clock 0 (filter isActive (targets options)) options = Inr prepared
        \<and> length prepared = length (filter (\<lambda>t. \<not> isSuppressed t) (targets options))
        \<and> issued' = issued @ map (\<lambda>q. buildRequest ds ''/api/prom/query'' (Some q)) prepared
        \<and> emitted ob =
            replicate (length (filter isSuppressed (targets options))) EMPTY @ map Value vs
        \<and> length vs \<le> length prepared"
    by blast
next
  assume *: "tickRequests ds co clocks srv options n issued = (running, issued'')"
  have act: "filter isActive (targets options) = filter (\<lambda>t. \<not> isSuppressed t) (targets options)"
    by (rule filter_cong) (simp_all add: isActive_iff)
  from tickRequests_invariant [OF *]
  show "\<exists>extra m.
          issued'' = issued @ extra \<and> m \<le> n
        \<and> length extra = m * length (filter (\<lambda>t. \<not> isSuppressed t) (targets options))
        \<and> (\<forall>r \<in> set extra. \<exists>t \<in> set (targets options). \<exists>now q.
              \<not> isSuppressed t \<and> prepareQueryTarget ds co now t options = Inr q
            \<and> r = buildRequest ds ''/api/prom/query'' (Some q))"
    unfolding act by (simp add: isActive_iff)
qed

text \<open>The batch of the counterexample, for one call and for two ticks.\<close>

theorem C8_suppressed_targets_witness:
  "fst (requestStream sample_datasource sample_collaborators sample_clock sample_stream_backend
          positional_options [])
     = Inr \<lparr>emitted = [EMPTY, Value (Result [StreamItem ((sample_stream ''{job=a}'')
                                                        \<lparr>search := Some ''err''\<rparr>)])],
            ending = Completes\<rparr>
   \<and> length (snd (requestStream sample_datasource sample_collaborators sample_clock
                    sample_stream_backend positional_options [])) = 1
   \<and> length (snd (tickRequests sample_datasource sample_collaborators (\<lambda>k. sample_clock)
                    sample_stream_backend positional_options 2 [])) = 2
   \<and> (\<exists>now q.
          prepareQueryTarget sample_datasource sample_collaborators now logs_target
            positional_options = Inr q
        \<and> snd (tickRequests sample_datasource sample_collaborators (\<lambda>k. sample_clock)
                 sample_stream_backend positional_options 2 []) ! 1
            = buildRequest sample_datasource ''/api/prom/query'' (Some q))"
proof -
  let ?s = "requestStream sample_datasource sample_collaborators sample_clock
              sample_stream_backend positional_options []"
  let ?t = "tickRequests sample_datasource sample_collaborators (\<lambda>k. sample_clock)
              sample_stream_backend positional_options 2 []"
  let ?ob = "\<lparr>emitted = [EMPTY, Value (Result [StreamItem ((sample_stream ''{job=a}'')
                                                        \<lparr>search := Some ''err''\<rparr>)])],
              ending = Completes\<rparr> :: nat emission observable"
  have f: "fst ?s = Inr ?ob"
    by code_simp
  then have s: "?s = (Inr ?ob, snd ?s)"
    by (metis prod.collapse)
  have l1: "length (snd ?s) = 1"
    by code_simp
  have l2: "length (snd ?t) = 2"
    by code_simp
  have t: "?t = (fst ?t, snd ?t)"
    by simp
  from C8_suppressed_targets [of sample_datasource sample_collaborators sample_clock
      sample_stream_backend positional_options "[]" ?ob "snd ?s" "\<lambda>k. sample_clock" 2
      "fst ?t" "snd ?t"] s t
  have all: "\<forall>r \<in> set (snd ?t).
        \<exists>t \<in> set (targets positional_options). \<exists>now q.
            \<not> isSuppressed t
          \<and> prepareQueryTarget sample_datasource sample_collaborators now t positional_options = Inr q
          \<and> r = buildRequest sample_datasource ''/api/prom/query'' (Some q)"
    by auto
  have "snd ?t ! 1 \<in> set (snd ?t)"
    using l2 by simp
  with all obtain t now q where
    "t \<in> set (targets positional_options)" "\<not> isSuppressed t"
    "prepareQueryTarget sample_datasource sample_collaborators now t positional_options = Inr q"
    "snd ?t ! 1 = buildRequest sample_datasource ''/api/prom/query'' (Some q)"
    by blast
  moreover from this(1,2) have "t = logs_target"
    by (auto simp: positional_options_def isSuppressed_def hidden_series_target_def)
  ultimately have "\<exists>now q.
          prepareQueryTarget sample_datasource sample_collaborators now logs_target
            positional_options = Inr q
        \<and> snd ?t ! 1 = buildRequest sample_datasource ''/api/prom/query'' (Some q)"
    by blast
  with f l1 l2 show ?thesis by (intro conjI)
qed

section \<open>Search tags\<close>






section \<open>The effective time window\<close>

lemma query_issued:
  assumes "query ds co clock srv options issued = (x, issued')"
  shows "issued' = issued
       \<or> (\<exists>queryTargets.
             prepareTargets ds co clock 0 (filter isActive (targets options)) options
               = Inr queryTargets
           \<and> issued' = issued @ map (\<lambda>q. buildRequest ds ''/api/prom/query'' (Some q)) queryTargets)"
proof (cases "prepareTargets ds co clock 0 (filter isActive (targets options)) options")
  case (Inl e)
  then show ?thesis using assms by (simp add: query_def)
next
  case (Inr queryTargets)
  show ?thesis
  proof (cases "queryTargets = []")
    case True
    then show ?thesis using assms Inr by (simp add: query_def)
  next
    case False
    obtain queries issued1 where ra: "requestAll srv ds queryTargets issued = (queries, issued1)"
      by (cases "requestAll srv ds queryTargets issued")
    have i1: "issued1 = issued @ map (\<lambda>q. buildRequest ds ''/api/prom/query'' (Some q)) queryTargets"
      using requestAll_issued [of srv ds queryTargets issued] ra by simp
    have "issued' = issued1"
      using assms Inr False ra by (auto simp: query_def split: sum.splits)
    with i1 Inr show ?thesis by blast
  qed
qed

lemma stream_live: "stream options = Inr WebSocketStream \<longleftrightarrow> liveStreamOf options = Inr True"
  by (auto simp: stream_def split: sum.splits if_splits)

text \<open>
  Claim C1, as stated: the target builder takes the window of the last second when live
  mode is in effect, whatever the requested range, and otherwise, in historical mode,
  the resolved range. It fails for \<open>query\<close>, the one-shot historical executor, on a
  batch whose first target is in logs mode: the range resolves to 5000000000 and
  7000000000, and the two requests carry the last second before their clock readings.
\<close>

theorem C1_counterexample:
  "getTime (dateMath_parse sample_collaborators) (from' (range' live_options)) False
     = Inr (Finite 5000000000)
   \<and> getTime (dateMath_parse sample_collaborators) (to' (range' live_options)) True
     = Inr (Finite 7000000000)
   \<and> map (\<lambda>r. map_option (\<lambda>q. (start q, end' q)) (params r))
        (snd (query sample_datasource sample_collaborators sample_clock sample_backend
                live_options []))
     = [Some (Finite 8000000000, Finite 9000000000), Some (Finite 8001000000, Finite 9001000000)]"
  by code_simp

text \<open>
  Claim C1, amended: the target builder chooses the window by the display mode of the
  first target of the batch, \<open>options.targets[0]\<close>, whichever executor calls it. When
  that target is not in time series mode, which is when \<open>stream\<close> polls live, the
  window is from the resolved moment one second before the clock reading to the
  resolved clock reading, whatever the requested range; this holds for every request of
  the one-shot \<open>query\<close> too. When it is in time series mode, the window starts at the
  resolved \<open>from\<close> of the range, with \<open>roundUp\<close> false, and ends at its resolved
  \<open>to\<close>, with \<open>roundUp\<close> true. Resolving is \<open>getTime\<close>, with its double-precision
  product.
\<close>

theorem C1_effective_window:
  "(liveStreamOf options = Inr True \<longrightarrow>
      (\<exists>q. (\<forall>r. prepareQueryTarget ds co now target (options\<lparr>range' := r\<rparr>) = Inr q)
          \<and> getTime (dateMath_parse co) (Moment (Finite (of_int (now - 1000)))) False
              = Inr (start q)
          \<and> getTime (dateMath_parse co) (Moment (Finite (of_int now))) True = Inr (end' q)))
   \<and> (liveStreamOf options = Inr False \<longrightarrow>
      getTime (dateMath_parse co) (from' (range' options)) False = Inr s \<longrightarrow>
      getTime (dateMath_parse co) (to' (range' options)) True = Inr e \<longrightarrow>
      (\<exists>q. prepareQueryTarget ds co now target options = Inr q \<and> start q = s \<and> end' q = e))
   \<and> (stream options = Inr WebSocketStream \<longrightarrow> liveStreamOf options = Inr True)
   \<and> (liveStreamOf options = Inr True \<longrightarrow>
      query ds co clock srv options issued = (x, issued') \<longrightarrow>
      (\<forall>k. length issued \<le> k \<longrightarrow> k < length issued' \<longrightarrow>
         (\<exists>q. params (issued' ! k) = Some q
            \<and> getTime (dateMath_parse co)
                 (Moment (Finite (of_int (clock (k - length issued) - 1000)))) False
                = Inr (start q)
            \<and> getTime (dateMath_parse co)
                 (Moment (Finite (of_int (clock (k - length issued))))) True
                = Inr (end' q))))"
proof (intro conjI impI allI)
  assume live: "liveStreamOf options = Inr True"
  have "\<And>r. liveStreamOf (options\<lparr>range' := r\<rparr>) = Inr True"
    using live by (simp add: liveStreamOf_def)
  then show "\<exists>q. (\<forall>r. prepareQueryTarget ds co now target (options\<lparr>range' := r\<rparr>) = Inr q)
          \<and> getTime (dateMath_parse co) (Moment (Finite (of_int (now - 1000)))) False
              = Inr (start q)
          \<and> getTime (dateMath_parse co) (Moment (Finite (of_int now))) True = Inr (end' q)"
    by (simp add: prepareQueryTarget_live getTime_Moment)
next
  assume "liveStreamOf options = Inr False"
    and "getTime (dateMath_parse co) (from' (range' options)) False = Inr s"
    and "getTime (dateMath_parse co) (to' (range' options)) True = Inr e"
  then show "\<exists>q. prepareQueryTarget ds co now target options = Inr q \<and> start q = s \<and> end' q = e"
    by (simp add: prepareQueryTarget_historical)
next
  assume "stream options = Inr WebSocketStream"
  then show "liveStreamOf options = Inr True" by (simp add: stream_live)
next
  fix k
  assume live: "liveStreamOf options = Inr True"
    and q: "query ds co clock srv options issued = (x, issued')"
    and lo: "length issued \<le> k" and hi: "k < length issued'"
  let ?j = "k - length issued"
  from query_issued [OF q] hi lo obtain queryTargets where
    prep: "prepareTargets ds co clock 0 (filter isActive (targets options)) options
             = Inr queryTargets"
    and iss: "issued' = issued @ map (\<lambda>q. buildRequest ds ''/api/prom/query'' (Some q))
                queryTargets"
    by auto
  have j: "?j < length queryTargets" using hi lo iss by auto
  have jt: "?j < length (filter isActive (targets options))"
    using j prepareTargets_length [OF prep] by simp
  have nth: "issued' ! k = buildRequest ds ''/api/prom/query'' (Some (queryTargets ! ?j))"
    using lo j by (simp add: iss nth_append)
  from prepareTargets_nth [OF prep jt]
  have "prepareQueryTarget ds co (clock ?j) (filter isActive (targets options) ! ?j) options
          = Inr (queryTargets ! ?j)"
    by simp
  then have eq: "queryTargets ! ?j =
      \<lparr>direction = ''BACKWARD'', limit = LokiDatasource.maxLines ds,
       regexp = parsed_regexp (parseQuery co (templateSrv_replace co
                  (expr (filter isActive (targets options) ! ?j)))),
       query' = parsed_query (parseQuery co (templateSrv_replace co
                  (expr (filter isActive (targets options) ! ?j)))),
       start = Math_ceil (times1e6 (Finite (of_int (clock ?j - 1000)))),
       end' = Math_ceil (times1e6 (Finite (of_int (clock ?j))))\<rparr>"
    by (simp only: prepareQueryTarget_live [OF live] sum.inject)
  have "start (queryTargets ! ?j) = Math_ceil (times1e6 (Finite (of_int (clock ?j - 1000))))"
    and "end' (queryTargets ! ?j) = Math_ceil (times1e6 (Finite (of_int (clock ?j))))"
    by (subst eq, simp)+
  then show "\<exists>q. params (issued' ! k) = Some q
            \<and> getTime (dateMath_parse co) (Moment (Finite (of_int (clock ?j - 1000)))) False
                = Inr (start q)
            \<and> getTime (dateMath_parse co) (Moment (Finite (of_int (clock ?j)))) True
                = Inr (end' q)"
    by (simp add: nth buildRequest_def getTime_Moment)
qed

text \<open>
  A batch in logs mode and a batch in time series mode, at the clock reading 9000, and
  the second request of the one-shot \<open>query\<close> on the first.
\<close>

theorem C1_effective_window_witness:
  "liveStreamOf live_options = Inr True
   \<and> stream live_options = Inr WebSocketStream
   \<and> (\<exists>q. (\<forall>r. prepareQueryTarget sample_datasource sample_collaborators 9000 logs_target
                  (live_options\<lparr>range' := r\<rparr>) = Inr q)
          \<and> start q = Finite 8000000000 \<and> end' q = Finite 9000000000)
   \<and> liveStreamOf historical_options = Inr False
   \<and> (\<exists>q. prepareQueryTarget sample_datasource sample_collaborators 9000 logs_target
             historical_options = Inr q
          \<and> start q = Finite 5000000000 \<and> end' q = Finite 7000000000)
   \<and> length (snd (query sample_datasource sample_collaborators sample_clock sample_backend
                    live_options [])) = 2
   \<and> (\<exists>q. params (snd (query sample_datasource sample_collaborators sample_clock sample_backend
                          live_options []) ! 1) = Some q
          \<and> start q = Finite 8001000000 \<and> end' q = Finite 9001000000)"
proof -
  let ?p = "dateMath_parse sample_collaborators"
  let ?q = "query sample_datasource sample_collaborators sample_clock sample_backend
              live_options []"
  have live: "liveStreamOf live_options = Inr True"
    by (simp add: liveStreamOf_def live_options_def logs_target_def)
  have ws: "stream live_options = Inr WebSocketStream"
    by (simp add: stream_def live)
  have hist: "liveStreamOf historical_options = Inr False"
    by (simp add: liveStreamOf_def historical_options_def series_target_def)
  have s: "getTime ?p (from' (range' historical_options)) False = Inr (Finite 5000000000)"
    by code_simp
  have e: "getTime ?p (to' (range' historical_options)) True = Inr (Finite 7000000000)"
    by code_simp
  have g1: "getTime ?p (Moment (Finite (of_int (9000 - 1000)))) False = Inr (Finite 8000000000)"
    by code_simp
  have g2: "getTime ?p (Moment (Finite (of_int 9000))) True = Inr (Finite 9000000000)"
    by code_simp
  have g3: "getTime ?p (Moment (Finite (of_int (sample_clock (1 - length ([] :: Request list))
                                                  - 1000)))) False
              = Inr (Finite 8001000000)"
    by code_simp
  have g4: "getTime ?p (Moment (Finite (of_int (sample_clock (1 - length ([] :: Request list))))))
              True = Inr (Finite 9001000000)"
    by code_simp
  have len: "length (snd ?q) = 2"
    by code_simp
  have pair: "?q = (fst ?q, snd ?q)"
    by simp
  note inst = C1_effective_window [where ds = sample_datasource and co = sample_collaborators
      and now = 9000 and target = logs_target and clock = sample_clock and srv = sample_backend
      and issued = "[]" and x = "fst ?q" and issued' = "snd ?q"]
  from inst [where options = live_options and s = "Finite 0" and e = "Finite 0",
      THEN conjunct1, rule_format, OF live]
  obtain q where "\<forall>r. prepareQueryTarget sample_datasource sample_collaborators 9000 logs_target
                  (live_options\<lparr>range' := r\<rparr>) = Inr q"
    and "getTime ?p (Moment (Finite (of_int (9000 - 1000)))) False = Inr (start q)"
    and "getTime ?p (Moment (Finite (of_int 9000))) True = Inr (end' q)"
    by blast
  with g1 g2
  have 1: "\<exists>q. (\<forall>r. prepareQueryTarget sample_datasource sample_collaborators 9000 logs_target
                  (live_options\<lparr>range' := r\<rparr>) = Inr q)
          \<and> start q = Finite 8000000000 \<and> end' q = Finite 9000000000"
    by auto
  from inst [where options = historical_options and s = "Finite 5000000000"
      and e = "Finite 7000000000", THEN conjunct2, THEN conjunct1, rule_format, OF hist s e]
  have 2: "\<exists>q. prepareQueryTarget sample_datasource sample_collaborators 9000 logs_target
             historical_options = Inr q
          \<and> start q = Finite 5000000000 \<and> end' q = Finite 7000000000"
    by blast
  from inst [where options = live_options and s = "Finite 0" and e = "Finite 0",
      THEN conjunct2, THEN conjunct2, THEN conjunct2, rule_format, OF live pair, of 1] len
  obtain q' where "params (snd ?q ! 1) = Some q'"
    and "getTime ?p (Moment (Finite (of_int (sample_clock (1 - length ([] :: Request list))
                                                  - 1000)))) False = Inr (start q')"
    and "getTime ?p (Moment (Finite (of_int (sample_clock (1 - length ([] :: Request list))))))
              True = Inr (end' q')"
    by auto
  with g3 g4
  have 3: "\<exists>q. params (snd ?q ! 1) = Some q
          \<and> start q = Finite 8001000000 \<and> end' q = Finite 9001000000"
    by auto
  from live ws 1 hist 2 len 3 show ?thesis by (intro conjI)
qed

end
